theory Spec2Isabelle
  imports Complex_Main "HOL-Library.Sublist" "HOL-Library.Char_ord" "HOL-Library.List_Lexorder"
    "HOL-Library.Product_Lexorder" "HOL-Library.AList"
begin

section \<open>Numbers\<close>

text \<open>
  The three scripts compute on IEEE doubles held in pandas and numpy containers. The
  embedding computes on real numbers, and keeps the one non-number the scripts can
  produce and test for, NaN, as an explicit value: a possibly-NaN number is a
  \<open>real option\<close> with \<open>None\<close> for NaN. Every comparison with NaN is false, as in
  Python. Raw scores are numbers (the input constraint of the survey file: a row has a
  score), so a NaN arises only from an undefined correlation, from a missing cell of the
  pivot table and from the maximum of an empty column.
\<close>

definition f_lt :: "real option \<Rightarrow> real \<Rightarrow> bool" where
  "f_lt a b = (case a of None \<Rightarrow> False | Some x \<Rightarrow> x < b)"

definition f_ge :: "real option \<Rightarrow> real \<Rightarrow> bool" where
  "f_ge a b = (case a of None \<Rightarrow> False | Some x \<Rightarrow> x \<ge> b)"

definition f_gt :: "real option \<Rightarrow> real \<Rightarrow> bool" where
  "f_gt a b = (case a of None \<Rightarrow> False | Some x \<Rightarrow> x > b)"

text \<open>
  \<open>round(x, nd)\<close> of Python and of numpy rounds \<open>x * 10 ^ nd\<close> to the nearest integer,
  a tie going to the even neighbour, and scales back.
\<close>

definition rint :: "real \<Rightarrow> int" where
  "rint x =
     (let f = \<lfloor>x\<rfloor>; d = x - of_int f
      in if d < 1 / 2 then f
         else if d > 1 / 2 then f + 1
         else if even f then f else f + 1)"

definition py_round :: "real \<Rightarrow> nat \<Rightarrow> real" where
  "py_round x nd = of_int (rint (x * 10 ^ nd)) / 10 ^ nd"

text \<open>The maximum of a column, NaN for an empty one.\<close>

fun col_max :: "real list \<Rightarrow> real option" where
  "col_max [] = None"
| "col_max (x # xs) = (case col_max xs of None \<Rightarrow> Some x | Some m \<Rightarrow> Some (max x m))"

definition mean_f :: "real list \<Rightarrow> real" where
  "mean_f xs = sum_list xs / real (length xs)"

text \<open>
  \<open>Series.corr\<close> is the pandas library's Pearson correlation (numpy's \<open>corrcoef\<close>): the
  covariance of the two vectors divided by both standard deviations, and NaN when a
  standard deviation is zero.
\<close>

definition corr :: "real list \<Rightarrow> real list \<Rightarrow> real option" where
  "corr xs ys =
     (let mx = mean_f xs; my = mean_f ys;
          sxy = (\<Sum>(x, y) \<leftarrow> zip xs ys. (x - mx) * (y - my));
          sxx = (\<Sum>x \<leftarrow> xs. (x - mx) ^ 2);
          syy = (\<Sum>y \<leftarrow> ys. (y - my) ^ 2)
      in if sxx = 0 \<or> syy = 0 then None else Some (sxy / (sqrt sxx * sqrt syy)))"

text \<open>\<open>unique\<close> and \<open>drop_duplicates\<close> of pandas keep the first occurrence of each value.\<close>

definition unique :: "'a list \<Rightarrow> 'a list" where
  "unique xs = rev (remdups (rev xs))"

section \<open>The survey file\<close>

text \<open>
  One row of the long-format file. \<open>Pesquisa\<close> is the survey-wave cell: a string, or
  any other cell value, kept as its \<open>str()\<close> rendering. \<open>ShoppingCode\<close>, \<open>Comentario\<close>
  and the store name can be missing (NaN).
\<close>

datatype pesquisa = PStr string | PNonStr string

record 'rid row =
  Pesquisa :: pesquisa
  ResponseID :: 'rid
  Tema :: string
  Momento :: string
  ShoppingCode :: "string option"
  Nota :: real
  Comentario :: "string option"
  NomeLoja :: "string option"

definition TARGET :: string where
  "TARGET = ''O Shopping''"

section \<open>gen\_kano\_data.py\<close>

fun map_period :: "pesquisa \<Rightarrow> string" where
  "map_period (PNonStr s) = s"
| "map_period (PStr p) = (if sublist ''2025'' p then ''2025'' else p)"

definition df_2025_raw :: "'rid row list \<Rightarrow> 'rid row list" where
  "df_2025_raw df = filter (\<lambda>w. map_period (Pesquisa w) = ''2025'') df"

definition valid_ids :: "'rid row list \<Rightarrow> 'rid list" where
  "valid_ids df =
     unique (map ResponseID
       (filter (\<lambda>w. Tema w = TARGET \<and> Momento w = ''Fim'') (df_2025_raw df)))"

definition condition :: "'rid row \<Rightarrow> bool" where
  "condition w \<longleftrightarrow> (Tema w = TARGET \<and> Momento w = ''Fim'') \<or> Tema w \<noteq> TARGET"

definition df_2025_sel :: "'rid row list \<Rightarrow> 'rid row list" where
  "df_2025_sel df =
     filter condition
       (filter (\<lambda>w. ResponseID w \<in> set (valid_ids df)) (df_2025_raw df))"

text \<open>Lines 38-39: one decision for the whole selection, from its maximum.\<close>

definition normalize_nota :: "'rid row list \<Rightarrow> 'rid row list" where
  "normalize_nota rows =
     (if f_gt (col_max (map Nota rows)) 10
      then map (\<lambda>w. w\<lparr>Nota := Nota w / 10\<rparr>) rows
      else rows)"

definition df_2025 :: "'rid row list \<Rightarrow> 'rid row list" where
  "df_2025 df = normalize_nota (df_2025_sel df)"

subsection \<open>The pivot table\<close>

text \<open>
  One row of the pivot per respondent: the mean score of each topic the respondent has
  rows for (NaN for the others) and, joined in, the entity code. \<open>shop_map\<close> is a
  dictionary built from the distinct (respondent, code) pairs in order, so the last
  distinct pair of a respondent decides.
\<close>

record 'rid prow =
  p_index :: 'rid
  p_vals :: "string \<Rightarrow> real option"
  p_shop :: "string option"

record 'rid frame =
  columns :: "string list"
  prows :: "'rid prow list"

definition shop_map :: "'rid row list \<Rightarrow> 'rid \<Rightarrow> string option option" where
  "shop_map rows = map_of (rev (unique (map (\<lambda>w. (ResponseID w, ShoppingCode w)) rows)))"

definition cell :: "'rid row list \<Rightarrow> 'rid \<Rightarrow> string \<Rightarrow> real option" where
  "cell rows i c =
     (let v = map Nota (filter (\<lambda>w. ResponseID w = i \<and> Tema w = c) rows)
      in if v = [] then None else Some (mean_f v))"

definition pivot :: "('rid::linorder) row list \<Rightarrow> 'rid frame" where
  "pivot rows =
     (let temas = sort (remdups (map Tema rows))
      in \<lparr>columns = (if ''ShoppingCode'' \<in> set temas then temas else temas @ [''ShoppingCode'']),
          prows = map (\<lambda>i. \<lparr>p_index = i, p_vals = cell rows i,
                              p_shop = (case shop_map rows i of None \<Rightarrow> None | Some c \<Rightarrow> c)\<rparr>)
                    (sort (remdups (map ResponseID rows)))\<rparr>)"

definition themes :: "'rid frame \<Rightarrow> string list" where
  "themes pv = filter (\<lambda>c. c \<notin> set [TARGET, ''ShoppingCode'']) (columns pv)"

subsection \<open>calculate\_stats\<close>

datatype category = Per | Rev | Bas | Enc | Crit

text \<open>Lines 101-105: the default, then the \<open>if\<close>/\<open>elif\<close> chain on the unrounded values.\<close>

definition classify :: "real \<Rightarrow> real option \<Rightarrow> category" where
  "classify mean r =
     (if f_lt r 0 then Rev
      else if mean \<ge> 8.5 \<and> f_lt r 0.2 then Bas
      else if f_ge r 0.25 then Enc
      else if mean < 8.0 \<and> f_lt r 0.2 then Crit
      else Per)"

record stat =
  stat_t :: string
  stat_m :: real
  stat_nps :: real
  stat_r :: real
  stat_n :: nat
  stat_cat :: category

text \<open>\<open>df_sub[[t, TARGET]].dropna()\<close>: the respondents with a score for both topics.\<close>

definition valid_pairs :: "'rid prow list \<Rightarrow> string \<Rightarrow> (real \<times> real) list" where
  "valid_pairs rows t =
     List.map_filter
       (\<lambda>w. case p_vals w t of None \<Rightarrow> None
            | Some x \<Rightarrow> (case p_vals w TARGET of None \<Rightarrow> None | Some y \<Rightarrow> Some (x, y)))
       rows"

definition theme_stat :: "string \<Rightarrow> (real \<times> real) list \<Rightarrow> stat" where
  "theme_stat t valid =
     (let xs = map fst valid;
          r = corr xs (map snd valid);
          mean = mean_f xs;
          prom = length (filter (\<lambda>x. x \<ge> 9) xs);
          det = length (filter (\<lambda>x. x \<le> 6) xs);
          total = length valid;
          nps = ((real prom - real det) / real total) * 100
      in \<lparr>stat_t = t,
          stat_m = py_round mean 2,
          stat_nps = py_round nps 1,
          stat_r = (case r of None \<Rightarrow> 0 | Some v \<Rightarrow> py_round v 3),
          stat_n = total,
          stat_cat = classify mean r\<rparr>)"

fun stats_loop :: "'rid frame \<Rightarrow> string list \<Rightarrow> stat list" where
  "stats_loop df_sub [] = []"
| "stats_loop df_sub (t # ts) =
     (if t \<notin> set (columns df_sub) then stats_loop df_sub ts
      else let valid = valid_pairs (prows df_sub) t
           in if length valid < 5 then stats_loop df_sub ts
              else theme_stat t valid # stats_loop df_sub ts)"

definition calculate_stats :: "'rid frame \<Rightarrow> string list \<Rightarrow> stat list" where
  "calculate_stats df_sub ths =
     (if TARGET \<notin> set (columns df_sub) then [] else stats_loop df_sub ths)"

subsection \<open>The tables of the bundle\<close>

text \<open>
  A sub-frame keeps the columns of the pivot and the rows of one entity. Python
  dictionaries are association lists in insertion order.
\<close>

definition shoppings :: "'rid frame \<Rightarrow> string list" where
  "shoppings pv = sort (unique (List.map_filter p_shop (prows pv)))"

definition sub_frame :: "'rid frame \<Rightarrow> string \<Rightarrow> 'rid frame" where
  "sub_frame pv s = pv\<lparr>prows := filter (\<lambda>w. p_shop w = Some s) (prows pv)\<rparr>"

definition kano_global :: "('rid::linorder) row list \<Rightarrow> stat list" where
  "kano_global df = (let pv = pivot (df_2025 df) in calculate_stats pv (themes pv))"

definition kano_by_shop :: "('rid::linorder) row list \<Rightarrow> (string \<times> stat list) list" where
  "kano_by_shop df =
     (let pv = pivot (df_2025 df)
      in map (\<lambda>s. (s, calculate_stats (sub_frame pv s) (themes pv))) (shoppings pv))"

text \<open>Line 137: the mean of each theme column over the scores present, rounded; NaN for none.\<close>

definition col_mean :: "'rid prow list \<Rightarrow> string \<Rightarrow> real option" where
  "col_mean rows t =
     (let v = List.map_filter (\<lambda>w. p_vals w t) rows
      in if v = [] then None else Some (py_round (mean_f v) 2))"

definition heatmap :: "('rid::linorder) row list \<Rightarrow> (string \<times> (string \<times> real option) list) list" where
  "heatmap df =
     (let pv = pivot (df_2025 df)
      in map (\<lambda>s. (s, map (\<lambda>t. (t, col_mean (prows (sub_frame pv s)) t)) (themes pv)))
           (shoppings pv))"

record nps25 =
  s_nps :: real
  s_media :: real
  s_n :: nat
  s_prom :: real
  s_neu :: real
  s_detr :: real

text \<open>Lines 147-162, for the scores of one entity's target rows.\<close>

definition nps_entry :: "real list \<Rightarrow> nps25" where
  "nps_entry notes =
     (let prom = length (filter (\<lambda>x. x \<ge> 9) notes);
          det = length (filter (\<lambda>x. x \<le> 6) notes);
          pas = length (filter (\<lambda>x. x \<ge> 7 \<and> x \<le> 8) notes);
          total = length notes;
          nps = ((real prom - real det) / real total) * 100;
          mean = mean_f notes
      in \<lparr>s_nps = py_round nps 1,
          s_media = py_round mean 2,
          s_n = total,
          s_prom = py_round ((real prom / real total) * 100) 1,
          s_neu = py_round ((real pas / real total) * 100) 1,
          s_detr = py_round ((real det / real total) * 100) 1\<rparr>)"

definition nps_static :: "('rid::linorder) row list \<Rightarrow> (string \<times> nps25) list" where
  "nps_static df =
     List.map_filter
       (\<lambda>s. let s_df = filter (\<lambda>w. ShoppingCode w = Some s \<and> Tema w = TARGET) (df_2025 df)
            in if s_df = [] then None else Some (s, nps_entry (map Nota s_df)))
       (shoppings (pivot (df_2025 df)))"

text \<open>
  The roster. \<open>upper\<close> and \<open>strip\<close> are the methods of Python's \<open>str\<close> (case mapping
  and trimming of white space), taken as parameters; \<open>has_loja\<close> says whether the file
  has a store-name column, whose cell is \<open>NomeLoja\<close> (\<open>str\<close> of a missing cell is
  \<open>nan\<close>).
\<close>

definition strip_chars :: "string \<Rightarrow> string \<Rightarrow> string" where
  "strip_chars cs s =
     rev (dropWhile (\<lambda>c. c \<in> set cs) (rev (dropWhile (\<lambda>c. c \<in> set cs) s)))"

fun join :: "string \<Rightarrow> string list \<Rightarrow> string" where
  "join sep [] = []"
| "join sep [x] = x"
| "join sep (x # y # ys) = x @ sep @ join sep (y # ys)"

record entry =
  e_n :: string
  e_s :: real
  e_c :: string
  e_d :: "(string \<times> real) list"
  e_t :: "string option"

definition details :: "'rid frame \<Rightarrow> 'rid \<Rightarrow> (string \<times> real) list" where
  "details pv rid =
     (case find (\<lambda>w. p_index w = rid) (prows pv) of
        None \<Rightarrow> []
      | Some p_row \<Rightarrow>
          List.map_filter
            (\<lambda>t. case p_vals p_row t of None \<Rightarrow> None | Some v \<Rightarrow> Some (t, py_round v 1))
            (themes pv))"

definition comment_text :: "(string \<Rightarrow> string) \<Rightarrow> 'rid row list \<Rightarrow> 'rid \<Rightarrow> string" where
  "comment_text strip rows rid =
     (let comments =
            unique (List.map_filter Comentario
              (filter (\<lambda>w. ResponseID w = rid \<and> Comentario w \<noteq> None \<and> Comentario w \<noteq> Some [])
                 rows))
      in join '' | '' (filter (\<lambda>c. c \<noteq> []) (map strip comments)))"

definition mk_entry ::
  "(string \<Rightarrow> string) \<Rightarrow> (string \<Rightarrow> string) \<Rightarrow> 'rid row list \<Rightarrow> 'rid frame \<Rightarrow> 'rid row \<Rightarrow> entry" where
  "mk_entry upper strip rows pv w =
     (let rid = ResponseID w;
          score = Nota w;
          cat = (if score \<ge> 9 then ''prom'' else if score \<ge> 7 then ''pass'' else ''detr'');
          name = take 30 (strip_chars [CHR '' '', CHR 0x22]
                   (upper (case NomeLoja w of None \<Rightarrow> ''nan'' | Some s \<Rightarrow> s)));
          txt = comment_text strip rows rid
      in \<lparr>e_n = name, e_s = score, e_c = cat, e_d = details pv rid,
          e_t = (if txt = [] then None else Some txt)\<rparr>)"

definition s_data :: "'rid row list \<Rightarrow> 'rid frame \<Rightarrow> string \<Rightarrow> 'rid row list" where
  "s_data rows pv s =
     filter (\<lambda>w. ResponseID w \<in> p_index ` set (prows (sub_frame pv s)) \<and> Tema w = TARGET) rows"

definition lojistas_list ::
  "bool \<Rightarrow> (string \<Rightarrow> string) \<Rightarrow> (string \<Rightarrow> string) \<Rightarrow> ('rid::linorder) row list
     \<Rightarrow> (string \<times> entry list) list" where
  "lojistas_list has_loja upper strip df =
     (if has_loja
      then let rows = df_2025 df; pv = pivot rows
           in map (\<lambda>s. (s, map (mk_entry upper strip rows pv) (s_data rows pv s))) (shoppings pv)
      else [])"

text \<open>The five constants written to the data file.\<close>

record kano_data =
  kanoGlobal :: "stat list"
  kanoByShop :: "(string \<times> stat list) list"
  shopTema2025 :: "(string \<times> (string \<times> real option) list) list"
  nps2025 :: "(string \<times> nps25) list"
  todosLojistas :: "(string \<times> entry list) list"

definition output_js ::
  "bool \<Rightarrow> (string \<Rightarrow> string) \<Rightarrow> (string \<Rightarrow> string) \<Rightarrow> ('rid::linorder) row list \<Rightarrow> kano_data" where
  "output_js has_loja upper strip df =
     \<lparr>kanoGlobal = kano_global df,
      kanoByShop = kano_by_shop df,
      shopTema2025 = heatmap df,
      nps2025 = nps_static df,
      todosLojistas = lojistas_list has_loja upper strip df\<rparr>"

section \<open>gen\_lojistas\_js\_final.py\<close>

text \<open>
  The period tables and the matrix report share the selection: the target-topic rows,
  their period, the finished ones, the first row of each (period, respondent) pair.
\<close>

fun map_period_nps :: "pesquisa \<Rightarrow> string" where
  "map_period_nps (PNonStr s) = s"
| "map_period_nps (PStr p) =
     (if sublist ''2024/1'' p then ''2024/1''
      else if sublist ''2024/2'' p then ''2024/2''
      else if sublist ''2025'' p then ''2025''
      else p)"

definition Period :: "'rid row \<Rightarrow> string" where
  "Period w = map_period_nps (Pesquisa w)"

definition df_nps :: "'rid row list \<Rightarrow> 'rid row list" where
  "df_nps df = filter (\<lambda>w. Tema w \<in> set [''O Shopping'']) df"

fun drop_duplicates :: "('a \<Rightarrow> 'k) \<Rightarrow> 'k list \<Rightarrow> 'a list \<Rightarrow> 'a list" where
  "drop_duplicates key seen [] = []"
| "drop_duplicates key seen (x # xs) =
     (if key x \<in> set seen then drop_duplicates key seen xs
      else x # drop_duplicates key (key x # seen) xs)"

definition df_final :: "'rid row list \<Rightarrow> 'rid row list" where
  "df_final df =
     drop_duplicates (\<lambda>w. (Period w, ResponseID w)) []
       (filter (\<lambda>w. Momento w = ''Fim'') (df_nps df))"

text \<open>Lines 37-39 (and 45-46 of the matrix script): one decision per group of rows.\<close>

definition scale_notes :: "real list \<Rightarrow> real list" where
  "scale_notes notes = (if f_gt (col_max notes) 10 then map (\<lambda>x. x / 10) notes else notes)"

record metrics =
  m_period :: string
  m_nps :: real
  m_total :: nat
  prom_pct :: real
  pass_pct :: real
  det_pct :: real
  prom_abs :: nat
  pass_abs :: nat
  det_abs :: nat

definition calculate_metrics :: "'rid row list \<Rightarrow> string \<Rightarrow> metrics option" where
  "calculate_metrics df_sub period_name =
     (let total = length df_sub
      in if total = 0 then None
         else
           let notes = scale_notes (map Nota df_sub);
               prom = length (filter (\<lambda>x. x \<ge> 9) notes);
               passives = length (filter (\<lambda>x. x \<ge> 7 \<and> x \<le> 8) notes);
               det = length (filter (\<lambda>x. x \<le> 6) notes);
               nps = ((real prom - real det) / real total) * 100
           in Some \<lparr>m_period = period_name,
                    m_nps = py_round nps 1,
                    m_total = total,
                    prom_pct = py_round ((real prom / real total) * 100) 1,
                    pass_pct = py_round ((real passives / real total) * 100) 1,
                    det_pct = py_round ((real det / real total) * 100) 1,
                    prom_abs = prom,
                    pass_abs = passives,
                    det_abs = det\<rparr>)"

definition target_periods :: "string list" where
  "target_periods = [''2024/1'', ''2024/2'', ''2025'']"

definition shoppings_nps :: "'rid row list \<Rightarrow> string list" where
  "shoppings_nps rows = sort (unique (List.map_filter ShoppingCode rows))"

definition shop_data :: "'rid row list \<Rightarrow> string \<Rightarrow> metrics list" where
  "shop_data rows shop =
     List.map_filter
       (\<lambda>p. calculate_metrics (filter (\<lambda>w. Period w = p) (filter (\<lambda>w. ShoppingCode w = Some shop) rows)) p)
       target_periods"

definition global_data :: "'rid row list \<Rightarrow> metrics list" where
  "global_data rows =
     List.map_filter (\<lambda>p. calculate_metrics (filter (\<lambda>w. Period w = p) rows) p) target_periods"

text \<open>The dictionary \<open>output\<close>, written to the data file as \<open>lojistasData\<close>.\<close>

definition lojistasData :: "'rid row list \<Rightarrow> (string \<times> metrics list) list" where
  "lojistasData df =
     (let rows = df_final df
      in AList.update ''GLOBAL'' (global_data rows)
           (map (\<lambda>shop. (shop, shop_data rows shop)) (shoppings_nps rows)))"

section \<open>gen\_nps\_matrix\_final.py\<close>

definition df_fim :: "'rid row list \<Rightarrow> 'rid row list" where
  "df_fim df =
     drop_duplicates (\<lambda>w. (Period w, ResponseID w)) []
       (filter (\<lambda>w. Momento w = ''Fim'') (df_nps df))"

record series =
  r_N :: nat
  r_Det :: nat
  r_Neu :: nat
  r_Prom :: nat
  r_NPS :: "real option"

definition get_metrics :: "'rid row list \<Rightarrow> series" where
  "get_metrics x =
     (let total = length x
      in if total = 0 then \<lparr>r_N = 0, r_Det = 0, r_Neu = 0, r_Prom = 0, r_NPS = None\<rparr>
         else
           let notes = scale_notes (map Nota x);
               prom = length (filter (\<lambda>v. v \<ge> 9) notes);
               passives = length (filter (\<lambda>v. v \<ge> 7 \<and> v \<le> 8) notes);
               det = length (filter (\<lambda>v. v \<le> 6) notes);
               nps = ((real prom - real det) / real total) * 100
           in \<lparr>r_N = total, r_Det = det, r_Neu = passives, r_Prom = prom, r_NPS = Some nps\<rparr>)"

text \<open>
  \<open>groupby\<close> makes one group per key present, in key order, and leaves out the rows
  whose key is missing: a row with no entity code is in no group of \<open>grouped\<close>, and is
  in its period's group of \<open>portfolio\<close>.
\<close>

record mrow =
  r_ShoppingCode :: string
  r_Period :: string
  r_series :: series

definition grouped :: "'rid row list \<Rightarrow> mrow list" where
  "grouped rows =
     map (\<lambda>(c, p). \<lparr>r_ShoppingCode = c, r_Period = p,
                     r_series = get_metrics (filter (\<lambda>w. ShoppingCode w = Some c \<and> Period w = p) rows)\<rparr>)
       (sort (remdups (List.map_filter
          (\<lambda>w. case ShoppingCode w of None \<Rightarrow> None | Some c \<Rightarrow> Some (c, Period w)) rows)))"

definition portfolio :: "'rid row list \<Rightarrow> mrow list" where
  "portfolio rows =
     map (\<lambda>p. \<lparr>r_ShoppingCode = ''PORTFOLIO'', r_Period = p,
                r_series = get_metrics (filter (\<lambda>w. Period w = p) rows)\<rparr>)
       (sort (remdups (map Period rows)))"

definition final_df :: "'rid row list \<Rightarrow> mrow list" where
  "final_df df =
     (let rows = df_fim df
      in sort_key (\<lambda>m. (r_ShoppingCode m, r_Period m)) (grouped rows @ portfolio rows))"

section \<open>The classifier as the specification words it\<close>

text \<open>
  The specification describes the classifier as an ordered list of (predicate,
  category) pairs on a mean and a correlation, both numbers, evaluated in sequence,
  the first match winning, with a default; an undefined correlation is to be treated
  as 0 before the rules are applied. These definitions follow the specification's
  words, to be compared with \<open>classify\<close>, which follows the source.
\<close>

definition spec_rules :: "((real \<times> real \<Rightarrow> bool) \<times> category) list" where
  "spec_rules =
     [(\<lambda>(mean, r). r < 0, Rev),
      (\<lambda>(mean, r). mean \<ge> 8.5 \<and> r < 0.2, Bas),
      (\<lambda>(mean, r). r \<ge> 0.25, Enc),
      (\<lambda>(mean, r). mean < 8.0 \<and> r < 0.2, Crit)]"

fun spec_first_match :: "(('a \<Rightarrow> bool) \<times> 'b) list \<Rightarrow> 'b \<Rightarrow> 'a \<Rightarrow> 'b" where
  "spec_first_match [] dflt x = dflt"
| "spec_first_match ((p, c) # rs) dflt x = (if p x then c else spec_first_match rs dflt x)"

text \<open>
  What a topic statistic of a grouping (the rows of a frame) is checked against: its
  mean field is the mean of the topic's paired scores rounded to two decimals and,
  when the correlation of the paired scores is defined, its correlation field is that
  correlation rounded to three decimals and its category is the first match of the
  rules on the mean and the correlation as computed, before rounding.
\<close>

definition spec_classified :: "'rid prow list \<Rightarrow> stat \<Rightarrow> bool" where
  "spec_classified rows s =
     (let valid = valid_pairs rows (stat_t s);
          xs = map fst valid; ys = map snd valid
      in stat_m s = py_round (mean_f xs) 2 \<and>
         (case corr xs ys of
            None \<Rightarrow> True
          | Some r \<Rightarrow> stat_r s = py_round r 3 \<and>
                     stat_cat s = spec_first_match spec_rules Per (mean_f xs, r)))"

section \<open>The paired sample as the specification words it\<close>

text \<open>
  The number of respondents of a grouping (the rows of a frame) with a score for both a
  topic and the target topic, in the specification's words; \<open>valid_pairs\<close> follows the
  source.
\<close>

definition spec_paired_count :: "'rid frame \<Rightarrow> string \<Rightarrow> nat" where
  "spec_paired_count fr t =
     length (filter (\<lambda>w. p_vals w t \<noteq> None \<and> p_vals w TARGET \<noteq> None) (prows fr))"




section \<open>The normalizer as the specification words it\<close>

text \<open>
  The specification's contract for one scope of scores: if the maximum observed raw
  score of the scope exceeds 10, every score of the scope is divided by 10, otherwise it
  is left unchanged. This definition follows the specification's words, to be compared
  with \<open>normalize_nota\<close> and \<open>scale_notes\<close>, which follow the source.
\<close>

definition spec_normalize :: "real list \<Rightarrow> real \<Rightarrow> real" where
  "spec_normalize scope x = (if scope \<noteq> [] \<and> Max (set scope) > 10 then x / 10 else x)"

section \<open>The pooled rows as the specification words them\<close>

text \<open>
  The union of all entities' responses of a period, in the specification's words: the
  rows of the period that belong to an entity, that is, carry an entity code.
\<close>

definition spec_entities_union :: "'rid row list \<Rightarrow> string \<Rightarrow> 'rid row list" where
  "spec_entities_union rows p = filter (\<lambda>w. ShoppingCode w \<noteq> None \<and> Period w = p) rows"

text \<open>
  De-duplication in the specification's words: the first row of each key is kept.
\<close>

fun spec_keep_first :: "('a \<Rightarrow> 'k) \<Rightarrow> 'a list \<Rightarrow> 'a list" where
  "spec_keep_first key [] = []"
| "spec_keep_first key (x # xs) = x # spec_keep_first key (filter (\<lambda>y. key y \<noteq> key x) xs)"

text \<open>
  The pooled rows of a period, and the NPS metric computed directly over a pool of
  rows: the scores normalized by the scope's maximum, the three band counts, and
  ((promoters - detractors) / total) * 100, undefined for an empty pool.
\<close>

definition spec_pool :: "'rid row list \<Rightarrow> string \<Rightarrow> 'rid row list" where
  "spec_pool rows p = filter (\<lambda>w. Period w = p) rows"

definition spec_metric :: "'rid row list \<Rightarrow> series" where
  "spec_metric pool =
     (let scores = map (\<lambda>w. spec_normalize (map Nota pool) (Nota w)) pool;
          prom = length (filter (\<lambda>x. x \<ge> 9) scores);
          pas = length (filter (\<lambda>x. x \<ge> 7 \<and> x \<le> 8) scores);
          det = length (filter (\<lambda>x. x \<le> 6) scores)
      in \<lparr>r_N = length pool, r_Det = det, r_Neu = pas, r_Prom = prom,
          r_NPS = (if pool = [] then None
                   else Some (((real prom - real det) / real (length pool)) * 100))\<rparr>)"

section \<open>Example data\<close>

text \<open>
  A small survey: the first \<open>k\<close> respondents of entity X finished the target topic and
  scored topic A as they scored the target (10, 9, 8, ...); in \<open>ex_survey\<close> there are
  five of them, and respondent 5 only started the target topic.
\<close>

definition ex_row :: "nat \<Rightarrow> string option \<Rightarrow> string \<Rightarrow> string \<Rightarrow> real \<Rightarrow> nat row" where
  "ex_row i c t m x =
     \<lparr>Pesquisa = PStr ''NPS 2025'', ResponseID = i, Tema = t, Momento = m, ShoppingCode = c,
      Nota = x, Comentario = None, NomeLoja = None\<rparr>"

definition ex_answers :: "nat \<Rightarrow> nat row list" where
  "ex_answers k =
     concat (map (\<lambda>i. [ex_row i (Some ''X'') ''O Shopping'' ''Fim'' (real (10 - i)),
                        ex_row i (Some ''X'') ''A'' ''Fim'' (real (10 - i))]) [0..<k])"

definition ex_survey :: "nat row list" where
  "ex_survey =
     ex_answers 5
     @ [ex_row 5 (Some ''X'') ''O Shopping'' ''Inicio'' 3, ex_row 5 (Some ''X'') ''A'' ''Inicio'' 3]"



text \<open>Five respondents who all gave topic A the score 10 and the target 10, 9, 8, 7, 6.\<close>

definition ex_flat :: "nat row list" where
  "ex_flat =
     concat (map (\<lambda>i. [ex_row i (Some ''X'') ''O Shopping'' ''Fim'' (real (10 - i)),
                        ex_row i (Some ''X'') ''A'' ''Fim'' 10]) [0..<5])"

text \<open>
  Five respondents whose topic A scores 8.5, 8.5, 8.5, 8.5, 8.48 have mean 8.496 and are
  uncorrelated with their target scores 10, 8, 10, 8, 9.
\<close>

definition ex_round :: "nat row list" where
  "ex_round =
     [ex_row 0 (Some ''X'') ''O Shopping'' ''Fim'' 10, ex_row 0 (Some ''X'') ''A'' ''Fim'' 8.5,
      ex_row 1 (Some ''X'') ''O Shopping'' ''Fim'' 8, ex_row 1 (Some ''X'') ''A'' ''Fim'' 8.5,
      ex_row 2 (Some ''X'') ''O Shopping'' ''Fim'' 10, ex_row 2 (Some ''X'') ''A'' ''Fim'' 8.5,
      ex_row 3 (Some ''X'') ''O Shopping'' ''Fim'' 8, ex_row 3 (Some ''X'') ''A'' ''Fim'' 8.5,
      ex_row 4 (Some ''X'') ''O Shopping'' ''Fim'' 9, ex_row 4 (Some ''X'') ''A'' ''Fim'' 8.48]"

text \<open>A pivot of \<open>k\<close> respondents whose topic A and target scores are both \<open>10 - i\<close>.\<close>

definition ex_frame :: "nat \<Rightarrow> nat frame" where
  "ex_frame k =
     \<lparr>columns = [''A'', ''O Shopping'', ''ShoppingCode''],
      prows = map (\<lambda>i. \<lparr>p_index = i,
                          p_vals = map_of [(''A'', real (10 - i)), (''O Shopping'', real (10 - i))],
                          p_shop = Some ''X''\<rparr>) [0..<k]\<rparr>"

text \<open>Finished target-topic rows of entity X with the given scores, one respondent each.\<close>

definition ex_rows :: "real list \<Rightarrow> nat row list" where
  "ex_rows xs = map (\<lambda>(i, x). ex_row i (Some ''X'') ''O Shopping'' ''Fim'' x) (enumerate 0 xs)"

text \<open>
  Finished target-topic rows for the matrix report: one respondent of entity A and one
  without an entity code; and one respondent of entity A with three of entity B.
\<close>

definition ex_pool :: "nat row list" where
  "ex_pool =
     [ex_row 0 (Some ''A'') ''O Shopping'' ''Fim'' 10, ex_row 1 None ''O Shopping'' ''Fim'' 0]"

definition ex_two :: "nat row list" where
  "ex_two =
     [ex_row 0 (Some ''A'') ''O Shopping'' ''Fim'' 10, ex_row 1 (Some ''B'') ''O Shopping'' ''Fim'' 0,
      ex_row 2 (Some ''B'') ''O Shopping'' ''Fim'' 0, ex_row 3 (Some ''B'') ''O Shopping'' ''Fim'' 0]"

section \<open>Properties of the numbers\<close>

lemma rint_bounds: "\<bar>of_int (rint x) - x\<bar> \<le> 1 / 2"
proof -
  have "of_int \<lfloor>x\<rfloor> \<le> x" "x < of_int \<lfloor>x\<rfloor> + 1" by linarith+
  then show ?thesis
    by (auto simp: rint_def Let_def)
qed

lemma py_round_error: "\<bar>py_round x 1 - x\<bar> \<le> 1 / 20"
proof -
  have "\<bar>of_int (rint (x * 10)) - x * 10\<bar> \<le> 1 / 2" by (rule rint_bounds)
  then show ?thesis by (simp add: py_round_def field_simps abs_le_iff)
qed

lemma f_gt_col_max: "f_gt (col_max xs) b \<longleftrightarrow> (\<exists>x \<in> set xs. x > b)"
proof (induction xs)
  case Nil
  then show ?case by (simp add: f_gt_def)
next
  case (Cons a xs)
  then show ?case
    by (cases "col_max xs") (auto simp: f_gt_def max_def)
qed

lemma scale_notes_id: "\<forall>x \<in> set notes. x \<le> 10 \<Longrightarrow> scale_notes notes = notes"
  by (auto simp: scale_notes_def f_gt_col_max)

lemma band_partition:
  fixes xs :: "real list"
  shows "length (filter (\<lambda>x. x \<ge> 9) xs) + length (filter (\<lambda>x. x \<ge> 7 \<and> x \<le> 8) xs)
       + length (filter (\<lambda>x. x \<le> 6) xs)
       + length (filter (\<lambda>x. (6 < x \<and> x < 7) \<or> (8 < x \<and> x < 9)) xs) = length xs"
  by (induction xs) auto

section \<open>Properties of calculate\_stats\<close>

lemma stat_t_theme_stat: "stat_t (theme_stat t valid) = t"
  by (simp add: theme_stat_def Let_def)


lemma stats_loop_set:
  "set (stats_loop df_sub ths) =
     {theme_stat t (valid_pairs (prows df_sub) t) | t.
        t \<in> set ths \<and> t \<in> set (columns df_sub) \<and> 5 \<le> length (valid_pairs (prows df_sub) t)}"
  by (induction ths) (auto simp: Let_def)

lemma calculate_stats_set:
  "set (calculate_stats df_sub ths) =
     {theme_stat t (valid_pairs (prows df_sub) t) | t.
        TARGET \<in> set (columns df_sub) \<and>
        t \<in> set ths \<and> t \<in> set (columns df_sub) \<and> 5 \<le> length (valid_pairs (prows df_sub) t)}"
  by (auto simp: calculate_stats_def stats_loop_set)

lemma ex_frame_pairs:
  "valid_pairs (prows (ex_frame 5)) ''A'' = [(10, 10), (9, 9), (8, 8), (7, 7), (6, 6)]"
  by (simp add: ex_frame_def valid_pairs_def List.map_filter_def TARGET_def upt_rec)

lemma ex_frame_stats:
  "calculate_stats (ex_frame 5) [''A''] =
     [theme_stat ''A'' [(10, 10), (9, 9), (8, 8), (7, 7), (6, 6)]]"
  using ex_frame_pairs by (simp add: calculate_stats_def Let_def) (simp add: ex_frame_def TARGET_def)

lemma classify_defined: "classify mean (Some r) = spec_first_match spec_rules Per (mean, r)"
  by (simp add: classify_def spec_rules_def f_lt_def f_ge_def)

lemma theme_stat_classified:
  "valid = valid_pairs rows t \<Longrightarrow> spec_classified rows (theme_stat t valid)"
  by (simp add: spec_classified_def theme_stat_def Let_def classify_defined split: option.split)

lemma calculate_stats_classified:
  "s \<in> set (calculate_stats df_sub ths) \<Longrightarrow> spec_classified (prows df_sub) s"
  by (auto simp: calculate_stats_set intro: theme_stat_classified)

text \<open>
  C1, amended. For every emitted topic statistic of the global table and of every
  per-entity table whose correlation is defined, the category is the first match of
  the five ordered rules reverse (r < 0), basic (mean >= 8.5 and r < 0.2), exciter
  (r >= 0.25), critical (mean < 8.0 and r < 0.2), performance otherwise, evaluated on
  the mean and the correlation of the topic's paired scores as computed, before they
  are rounded to the emitted fields (the mean to two decimals, the correlation to
  three); the per-entity table of an entity is computed on the pivot rows of that
  entity. For mean 9.0 and r = -0.1 the category is reverse, not basic.
\<close>

theorem category_first_match_unrounded:
  "(\<forall>s \<in> set (calculate_stats df_sub ths). spec_classified (prows df_sub) s) \<and>
   (\<forall>s \<in> set (kano_global df). spec_classified (prows (pivot (df_2025 df))) s) \<and>
   (\<forall>e \<in> set (kano_by_shop df). \<forall>s \<in> set (snd e).
      spec_classified (filter (\<lambda>w. p_shop w = Some (fst e)) (prows (pivot (df_2025 df)))) s) \<and>
   (\<forall>mean r. classify mean (Some r) = spec_first_match spec_rules Per (mean, r)) \<and>
   spec_first_match spec_rules Per (9.0, - 0.1) = Rev \<and>
   spec_first_match spec_rules Per (9.0, - 0.1) \<noteq> Bas"
proof (intro conjI ballI allI)
  fix s assume "s \<in> set (calculate_stats df_sub ths)"
  then show "spec_classified (prows df_sub) s" by (rule calculate_stats_classified)
next
  fix s assume "s \<in> set (kano_global df)"
  then show "spec_classified (prows (pivot (df_2025 df))) s"
    by (auto simp: kano_global_def Let_def dest: calculate_stats_classified)
next
  fix e s assume "e \<in> set (kano_by_shop df)" "s \<in> set (snd e)"
  then have "s \<in> set (calculate_stats (sub_frame (pivot (df_2025 df)) (fst e))
                      (themes (pivot (df_2025 df))))"
    by (auto simp: kano_by_shop_def Let_def)
  then have "spec_classified (prows (sub_frame (pivot (df_2025 df)) (fst e))) s"
    by (rule calculate_stats_classified)
  then show "spec_classified (filter (\<lambda>w. p_shop w = Some (fst e)) (prows (pivot (df_2025 df)))) s"
    by (simp add: sub_frame_def)
next
  fix mean r
  show "classify mean (Some r) = spec_first_match spec_rules Per (mean, r)"
    by (rule classify_defined)
qed (simp_all add: spec_rules_def)

theorem category_first_match_unrounded_witness:
  "spec_classified (prows (ex_frame 5)) (theme_stat ''A'' [(10, 10), (9, 9), (8, 8), (7, 7), (6, 6)]) \<and>
   corr [10, 9, 8, 7, 6] [10, 9, 8, 7, 6] = Some 1 \<and>
   stat_cat (theme_stat ''A'' [(10, 10), (9, 9), (8, 8), (7, 7), (6, 6)]) = Enc"
proof -
  let ?s = "theme_stat ''A'' [(10, 10), (9, 9), (8, 8), (7, 7), (6, 6)]"
  have m: "?s \<in> set (calculate_stats (ex_frame 5) [''A''])"
    by (simp add: ex_frame_stats)
  have c: "corr [10, 9, 8, 7, 6] [10, 9, 8, 7, 6] = Some 1"
    by (simp add: corr_def mean_f_def Let_def power2_eq_square)
  have 1: "spec_classified (prows (ex_frame 5)) ?s"
    using category_first_match_unrounded [of "ex_frame 5" "[''A'']"] m by blast
  then have "stat_cat ?s = spec_first_match spec_rules Per (mean_f [10, 9, 8, 7, 6], 1)"
    by (simp add: spec_classified_def Let_def stat_t_theme_stat ex_frame_pairs c)
  then have "stat_cat ?s = Enc"
    by (simp add: mean_f_def spec_rules_def)
  with 1 c show ?thesis by simp
qed

lemmas sel_defs = ex_row_def df_2025_def df_2025_sel_def df_2025_raw_def valid_ids_def
     unique_def condition_def TARGET_def sublist_code normalize_nota_def f_gt_def pivot_def Let_def
     themes_def cell_def

lemma ex_round_global:
  "kano_global ex_round =
     [theme_stat ''A'' [(8.5, 10), (8.5, 8), (8.5, 10), (8.5, 8), (8.48, 9)]]"
proof -
  have th: "themes (pivot (df_2025 ex_round)) = [''A'']"
    unfolding ex_round_def by (simp add: sel_defs)
  have cols: "columns (pivot (df_2025 ex_round)) = [''A'', ''O Shopping'', ''ShoppingCode'']"
    unfolding ex_round_def by (simp add: sel_defs)
  have e: "\<exists>a::real. a * 25 = 212" "\<exists>a::real. a * 2 = 17"
    by (rule exI [of _ "212 / 25"], simp, rule exI [of _ "17 / 2"], simp)
  have pairs: "valid_pairs (prows (pivot (df_2025 ex_round))) ''A''
                 = [(8.5, 10), (8.5, 8), (8.5, 10), (8.5, 8), (8.48, 9)]"
    unfolding ex_round_def
    by (simp add: sel_defs valid_pairs_def List.map_filter_def mean_f_def e)
  show ?thesis
    by (simp add: kano_global_def Let_def th calculate_stats_def cols TARGET_def pairs)
qed

text \<open>
  C1, as stated, fails on the emitted values. For the topic scores 8.5, 8.5, 8.5, 8.5,
  8.48 the emitted statistic has mean 8.5 (the computed mean is 8.496), correlation 0
  and category performance, where the rules on the emitted mean 8.5 and correlation 0
  give basic. It also fails when the correlation is undefined: for five topic scores
  10 the emitted statistic has mean 10, correlation 0 and category performance, where
  the rules on mean 10 and correlation 0 give basic.
\<close>

theorem category_on_emitted_counterexample:
  "map (\<lambda>s. (stat_t s, stat_m s, stat_r s, stat_n s, stat_cat s)) (kano_global ex_round)
     = [(''A'', 8.5, 0, 5, Per)] \<and>
   spec_first_match spec_rules Per (8.5, 0) = Bas \<and>
   map (\<lambda>s. (stat_m s, stat_r s, stat_cat s))
       [theme_stat ''A'' [(10, 10), (10, 9), (10, 8), (10, 7), (10, 6)]]
     = [(10, 0, Per)] \<and>
   spec_first_match spec_rules Per (10, 0) = Bas"
proof -
  have c: "corr [8.5, 8.5, 8.5, 8.5, 8.48] [10, 8, 10, 8, 9] = Some 0"
    by (simp add: corr_def mean_f_def Let_def power2_eq_square)
  have r: "py_round (8.496) 2 = 8.5" "py_round 0 3 = 0" "py_round 10 2 = 10"
    by (simp_all add: py_round_def rint_def Let_def)
  have c2: "corr [10, 10, 10, 10, 10] [10, 9, 8, 7, 6] = None"
    by (simp add: corr_def mean_f_def Let_def)
  have 1: "map (\<lambda>s. (stat_t s, stat_m s, stat_r s, stat_n s, stat_cat s)) (kano_global ex_round)
     = [(''A'', 8.5, 0, 5, Per)]"
    using c r by (simp add: ex_round_global theme_stat_def Let_def mean_f_def classify_def f_lt_def f_ge_def)
  have 2: "map (\<lambda>s. (stat_m s, stat_r s, stat_cat s))
       [theme_stat ''A'' [(10, 10), (10, 9), (10, 8), (10, 7), (10, 6)]] = [(10, 0, Per)]"
    using c2 r by (simp add: theme_stat_def Let_def mean_f_def classify_def f_lt_def f_ge_def)
  have 3: "spec_first_match spec_rules Per (8.5, 0) = Bas" "spec_first_match spec_rules Per (10, 0) = Bas"
    by (simp_all add: spec_rules_def)
  from 1 2 3 show ?thesis by simp
qed

section \<open>The NPS metric\<close>

lemma Nota_ex_rows: "map Nota (ex_rows xs) = xs"
proof -
  have "map Nota (ex_rows xs) = map snd (enumerate 0 xs)"
    by (simp add: ex_rows_def ex_row_def split_def comp_def)
  then show ?thesis by simp
qed

lemma calculate_metrics_Some:
  "df_sub \<noteq> [] \<Longrightarrow>
   calculate_metrics df_sub p =
     Some \<lparr>m_period = p,
           m_nps = py_round (((real (length (filter (\<lambda>x. x \<ge> 9) (scale_notes (map Nota df_sub))))
                     - real (length (filter (\<lambda>x. x \<le> 6) (scale_notes (map Nota df_sub)))))
                     / real (length df_sub)) * 100) 1,
           m_total = length df_sub,
           prom_pct = py_round ((real (length (filter (\<lambda>x. x \<ge> 9) (scale_notes (map Nota df_sub))))
                        / real (length df_sub)) * 100) 1,
           pass_pct = py_round ((real (length (filter (\<lambda>x. x \<ge> 7 \<and> x \<le> 8) (scale_notes (map Nota df_sub))))
                        / real (length df_sub)) * 100) 1,
           det_pct = py_round ((real (length (filter (\<lambda>x. x \<le> 6) (scale_notes (map Nota df_sub))))
                        / real (length df_sub)) * 100) 1,
           prom_abs = length (filter (\<lambda>x. x \<ge> 9) (scale_notes (map Nota df_sub))),
           pass_abs = length (filter (\<lambda>x. x \<ge> 7 \<and> x \<le> 8) (scale_notes (map Nota df_sub))),
           det_abs = length (filter (\<lambda>x. x \<le> 6) (scale_notes (map Nota df_sub)))\<rparr>"
  by (simp add: calculate_metrics_def Let_def)

text \<open>
  C2. For a non-empty group of rows whose scores are already on the 0-10 scale, the NPS
  metric is ((promoters - detractors) / total) * 100 rounded to one decimal, with
  promoters the scores >= 9, passives the scores in [7, 8] and detractors the scores
  <= 6; rounding to one decimal yields a multiple of 0.1 at most 0.05 away. For the
  scores 10, 10, 10, 9, 8, 8, 7, 6, 5, 0 the NPS is 10.0 with 4 promoters, 3 passives
  and 3 detractors, and the mean reported by the snapshot is 7.3.
\<close>

theorem nps_metric_formula:
  "(df_sub \<noteq> [] \<and> (\<forall>w \<in> set df_sub. Nota w \<le> 10) \<longrightarrow>
      (\<exists>m. calculate_metrics df_sub p = Some m \<and>
           m_nps m = py_round (((real (length (filter (\<lambda>w. Nota w \<ge> 9) df_sub))
                                - real (length (filter (\<lambda>w. Nota w \<le> 6) df_sub)))
                               / real (length df_sub)) * 100) 1 \<and>
           prom_abs m = length (filter (\<lambda>w. Nota w \<ge> 9) df_sub) \<and>
           pass_abs m = length (filter (\<lambda>w. Nota w \<ge> 7 \<and> Nota w \<le> 8) df_sub) \<and>
           det_abs m = length (filter (\<lambda>w. Nota w \<le> 6) df_sub) \<and>
           m_total m = length df_sub)) \<and>
   s_nps (nps_entry notes) =
      py_round (((real (length (filter (\<lambda>x. x \<ge> 9) notes)) - real (length (filter (\<lambda>x. x \<le> 6) notes)))
                 / real (length notes)) * 100) 1 \<and>
   (\<forall>x. \<exists>k::int. py_round x 1 = of_int k / 10 \<and> \<bar>py_round x 1 - x\<bar> \<le> 1 / 20) \<and>
   (map Nota df_sub = [10, 10, 10, 9, 8, 8, 7, 6, 5, 0] \<longrightarrow>
      (\<exists>m. calculate_metrics df_sub p = Some m \<and> m_nps m = 10 \<and>
           prom_abs m = 4 \<and> pass_abs m = 3 \<and> det_abs m = 3 \<and>
           s_nps (nps_entry (map Nota df_sub)) = 10 \<and>
           s_media (nps_entry (map Nota df_sub)) = 7.3))"
proof (intro conjI impI allI)
  assume a: "df_sub \<noteq> [] \<and> (\<forall>w \<in> set df_sub. Nota w \<le> 10)"
  then have sc: "scale_notes (map Nota df_sub) = map Nota df_sub"
    by (intro scale_notes_id) auto
  show "\<exists>m. calculate_metrics df_sub p = Some m \<and>
           m_nps m = py_round (((real (length (filter (\<lambda>w. Nota w \<ge> 9) df_sub))
                                - real (length (filter (\<lambda>w. Nota w \<le> 6) df_sub)))
                               / real (length df_sub)) * 100) 1 \<and>
           prom_abs m = length (filter (\<lambda>w. Nota w \<ge> 9) df_sub) \<and>
           pass_abs m = length (filter (\<lambda>w. Nota w \<ge> 7 \<and> Nota w \<le> 8) df_sub) \<and>
           det_abs m = length (filter (\<lambda>w. Nota w \<le> 6) df_sub) \<and>
           m_total m = length df_sub"
    using a by (simp add: calculate_metrics_Some sc filter_map comp_def)
next
  show "s_nps (nps_entry notes) =
      py_round (((real (length (filter (\<lambda>x. x \<ge> 9) notes)) - real (length (filter (\<lambda>x. x \<le> 6) notes)))
                 / real (length notes)) * 100) 1"
    by (simp add: nps_entry_def Let_def)
next
  fix x :: real
  show "\<exists>k::int. py_round x 1 = of_int k / 10 \<and> \<bar>py_round x 1 - x\<bar> \<le> 1 / 20"
    using py_round_error [of x] by (auto simp: py_round_def)
next
  assume n: "map Nota df_sub = [10, 10, 10, 9, 8, 8, 7, 6, 5, 0]"
  then have ne: "df_sub \<noteq> []" by auto
  have sc: "scale_notes [10, 10, 10, 9, 8, 8, 7, 6, 5, 0] = [10, 10, 10, 9, 8, 8, 7, 6, 5, 0]"
    by (simp add: scale_notes_def f_gt_def)
  have "length df_sub = length (map Nota df_sub)" by simp
  then have len: "length df_sub = 10" unfolding n by simp
  have r1: "py_round 10 1 = 10" by (simp add: py_round_def rint_def Let_def)
  have r2: "py_round (73 / 10) 2 = 73 / 10" by (simp add: py_round_def rint_def Let_def)
  show "\<exists>m. calculate_metrics df_sub p = Some m \<and> m_nps m = 10 \<and>
           prom_abs m = 4 \<and> pass_abs m = 3 \<and> det_abs m = 3 \<and>
           s_nps (nps_entry (map Nota df_sub)) = 10 \<and>
           s_media (nps_entry (map Nota df_sub)) = 7.3"
    using r1 r2 by (simp add: calculate_metrics_Some [OF ne] n sc len nps_entry_def mean_f_def Let_def)
qed


lemma Nota_le_ex_rows: "list_all (\<lambda>w. Nota w \<le> b) (ex_rows xs) \<longleftrightarrow> list_all (\<lambda>x. x \<le> b) xs"
proof -
  have "list_all (\<lambda>w. Nota w \<le> b) (ex_rows xs) \<longleftrightarrow> list_all (\<lambda>x. x \<le> b) (map Nota (ex_rows xs))"
    by (simp add: list_all_iff)
  then show ?thesis by (simp only: Nota_ex_rows)
qed

theorem nps_metric_formula_witness:
  "ex_rows [10, 10, 10, 9, 8, 8, 7, 6, 5, 0] \<noteq> [] \<and>
   list_all (\<lambda>w. Nota w \<le> 10) (ex_rows [10, 10, 10, 9, 8, 8, 7, 6, 5, 0]) \<and>
   (\<exists>m. calculate_metrics (ex_rows [10, 10, 10, 9, 8, 8, 7, 6, 5, 0]) ''2025'' = Some m \<and>
        m_nps m = 10 \<and> prom_abs m = 4 \<and> pass_abs m = 3 \<and> det_abs m = 3 \<and> m_total m = 10)"
proof -
  let ?d = "ex_rows [10, 10, 10, 9, 8, 8, 7, 6, 5, 0]"
  have ne: "?d \<noteq> []" by (simp add: ex_rows_def)
  have le: "list_all (\<lambda>w. Nota w \<le> 10) ?d" by (simp add: Nota_le_ex_rows)
  have len: "length ?d = 10" by (simp add: ex_rows_def)
  note c = nps_metric_formula [of ?d "''2025''" "[]"]
  from c have "?d \<noteq> [] \<and> (\<forall>w \<in> set ?d. Nota w \<le> 10) \<longrightarrow>
      (\<exists>m. calculate_metrics ?d ''2025'' = Some m \<and>
           m_nps m = py_round (((real (length (filter (\<lambda>w. Nota w \<ge> 9) ?d))
                                - real (length (filter (\<lambda>w. Nota w \<le> 6) ?d)))
                               / real (length ?d)) * 100) 1 \<and>
           prom_abs m = length (filter (\<lambda>w. Nota w \<ge> 9) ?d) \<and>
           pass_abs m = length (filter (\<lambda>w. Nota w \<ge> 7 \<and> Nota w \<le> 8) ?d) \<and>
           det_abs m = length (filter (\<lambda>w. Nota w \<le> 6) ?d) \<and>
           m_total m = length ?d)"
    by (rule conjunct1)
  with ne le obtain m where m: "calculate_metrics ?d ''2025'' = Some m" "m_total m = length ?d"
    unfolding list_all_iff by blast
  from c have "map Nota ?d = [10, 10, 10, 9, 8, 8, 7, 6, 5, 0] \<longrightarrow>
      (\<exists>m. calculate_metrics ?d ''2025'' = Some m \<and> m_nps m = 10 \<and>
           prom_abs m = 4 \<and> pass_abs m = 3 \<and> det_abs m = 3 \<and>
           s_nps (nps_entry (map Nota ?d)) = 10 \<and>
           s_media (nps_entry (map Nota ?d)) = 7.3)"
    by (rule conjunct2 [OF conjunct2 [OF conjunct2]])
  then have "\<exists>m. calculate_metrics ?d ''2025'' = Some m \<and> m_nps m = 10 \<and>
           prom_abs m = 4 \<and> pass_abs m = 3 \<and> det_abs m = 3"
    using Nota_ex_rows [of "[10, 10, 10, 9, 8, 8, 7, 6, 5, 0]"] by blast
  with m len ne le show ?thesis by auto
qed

lemma get_metrics_nonempty:
  "x \<noteq> [] \<Longrightarrow>
   get_metrics x =
     \<lparr>r_N = length x,
      r_Det = length (filter (\<lambda>v. v \<le> 6) (scale_notes (map Nota x))),
      r_Neu = length (filter (\<lambda>v. v \<ge> 7 \<and> v \<le> 8) (scale_notes (map Nota x))),
      r_Prom = length (filter (\<lambda>v. v \<ge> 9) (scale_notes (map Nota x))),
      r_NPS = Some (((real (length (filter (\<lambda>v. v \<ge> 9) (scale_notes (map Nota x))))
                     - real (length (filter (\<lambda>v. v \<le> 6) (scale_notes (map Nota x)))))
                     / real (length x)) * 100)\<rparr>"
  by (simp add: get_metrics_def Let_def)

lemma length_scale_notes: "length (scale_notes notes) = length notes"
  by (simp add: scale_notes_def)

text \<open>
  C9. The three bands are pairwise disjoint and not exhaustive: a score strictly
  between 6 and 7 or strictly between 8 and 9 is counted in no band, so promoters +
  passives + detractors plus the number of such scores is the total; the three counts
  sum to at most the total, and to less than it for the raw scores 65 and 85, which
  normalization turns into 6.5 and 8.5.
\<close>

theorem bands_not_exhaustive:
  "(calculate_metrics df_sub p = Some m \<longrightarrow>
      prom_abs m + pass_abs m + det_abs m
        + length (filter (\<lambda>x. (6 < x \<and> x < 7) \<or> (8 < x \<and> x < 9)) (scale_notes (map Nota df_sub)))
        = m_total m \<and>
      prom_abs m + pass_abs m + det_abs m \<le> m_total m) \<and>
   r_Prom (get_metrics df_sub) + r_Neu (get_metrics df_sub) + r_Det (get_metrics df_sub)
      + length (filter (\<lambda>x. (6 < x \<and> x < 7) \<or> (8 < x \<and> x < 9)) (scale_notes (map Nota df_sub)))
      = r_N (get_metrics df_sub) \<and>
   r_Prom (get_metrics df_sub) + r_Neu (get_metrics df_sub) + r_Det (get_metrics df_sub)
      \<le> r_N (get_metrics df_sub) \<and>
   (\<forall>x::real. \<not> (x \<ge> 9 \<and> (x \<ge> 7 \<and> x \<le> 8)) \<and> \<not> (x \<ge> 9 \<and> x \<le> 6) \<and> \<not> ((x \<ge> 7 \<and> x \<le> 8) \<and> x \<le> 6)) \<and>
   (\<exists>m'. calculate_metrics (ex_rows [65, 85]) p = Some m' \<and>
         prom_abs m' + pass_abs m' + det_abs m' < m_total m')"
proof -
  let ?ns = "scale_notes (map Nota df_sub)"
  have part: "length (filter (\<lambda>x. x \<ge> 9) ?ns) + length (filter (\<lambda>x. x \<ge> 7 \<and> x \<le> 8) ?ns)
       + length (filter (\<lambda>x. x \<le> 6) ?ns)
       + length (filter (\<lambda>x. (6 < x \<and> x < 7) \<or> (8 < x \<and> x < 9)) ?ns) = length df_sub"
    using band_partition [of ?ns] by (simp add: length_scale_notes)
  have a: "calculate_metrics df_sub p = Some m \<longrightarrow>
      prom_abs m + pass_abs m + det_abs m
        + length (filter (\<lambda>x. (6 < x \<and> x < 7) \<or> (8 < x \<and> x < 9)) ?ns) = m_total m \<and>
      prom_abs m + pass_abs m + det_abs m \<le> m_total m"
  proof (cases "df_sub = []")
    case True
    then show ?thesis by (simp add: calculate_metrics_def)
  next
    case False
    show ?thesis using part by (auto simp: calculate_metrics_Some [OF False])
  qed
  have b: "r_Prom (get_metrics df_sub) + r_Neu (get_metrics df_sub) + r_Det (get_metrics df_sub)
      + length (filter (\<lambda>x. (6 < x \<and> x < 7) \<or> (8 < x \<and> x < 9)) ?ns) = r_N (get_metrics df_sub)"
  proof (cases "df_sub = []")
    case True
    then show ?thesis by (simp add: get_metrics_def scale_notes_def)
  next
    case False
    show ?thesis using part by (simp add: get_metrics_nonempty [OF False])
  qed
  have c: "\<exists>m'. calculate_metrics (ex_rows [65, 85]) p = Some m' \<and>
         prom_abs m' + pass_abs m' + det_abs m' < m_total m'"
  proof -
    have ne: "ex_rows [65, 85] \<noteq> []" by (simp add: ex_rows_def)
    have sc: "scale_notes [65, 85] = [65 / 10, 85 / 10]" by (simp add: scale_notes_def f_gt_def)
    have len: "length (ex_rows [65, 85]) = 2" by (simp add: ex_rows_def)
    show ?thesis by (simp add: calculate_metrics_Some [OF ne] Nota_ex_rows sc len)
  qed
  from a b c show ?thesis by auto
qed

theorem bands_not_exhaustive_witness:
  "calculate_metrics (ex_rows [65, 85, 90, 70, 30]) ''2025'' \<noteq> None \<and>
   prom_abs (the (calculate_metrics (ex_rows [65, 85, 90, 70, 30]) ''2025''))
   + pass_abs (the (calculate_metrics (ex_rows [65, 85, 90, 70, 30]) ''2025''))
   + det_abs (the (calculate_metrics (ex_rows [65, 85, 90, 70, 30]) ''2025'')) + 2 = 5"
proof -
  let ?d = "ex_rows [65, 85, 90, 70, 30]"
  have ne: "?d \<noteq> []" by (simp add: ex_rows_def)
  obtain m where m: "calculate_metrics ?d ''2025'' = Some m"
    by (simp add: calculate_metrics_Some [OF ne])
  have sc: "scale_notes [65, 85, 90, 70, 30] = [65 / 10, 85 / 10, 9, 7, 3]"
    by (simp add: scale_notes_def f_gt_def)
  have len: "length ?d = 5" by (simp add: ex_rows_def)
  have t: "m_total m = 5" using m len by (auto simp: calculate_metrics_Some [OF ne])
  from bands_not_exhaustive [of ?d "''2025''" m] m
  have "prom_abs m + pass_abs m + det_abs m
        + length (filter (\<lambda>x. (6 < x \<and> x < 7) \<or> (8 < x \<and> x < 9)) (scale_notes (map Nota ?d)))
        = m_total m" by blast
  then have "prom_abs m + pass_abs m + det_abs m + 2 = 5"
    by (simp add: Nota_ex_rows sc t)
  with m show ?thesis by simp
qed

lemma pct_sum_close:
  fixes P A D T :: nat
  assumes T: "0 < T"
  shows "\<bar>py_round ((real P / real T) * 100) 1 + py_round ((real A / real T) * 100) 1
            + py_round ((real D / real T) * 100) 1
          - 100 * real (P + A + D) / real T\<bar> \<le> 15 / 100"
proof -
  have e: "100 * real (P + A + D) / real T
          = (real P / real T) * 100 + (real A / real T) * 100 + (real D / real T) * 100"
    using T by (simp add: field_simps)
  show ?thesis
    unfolding e
    using py_round_error [of "(real P / real T) * 100"]
      py_round_error [of "(real A / real T) * 100"]
      py_round_error [of "(real D / real T) * 100"]
    by linarith
qed

lemma no_gap_filter:
  fixes xs :: "real list"
  shows "(\<forall>x \<in> set xs. \<not> (6 < x \<and> x < 7) \<and> \<not> (8 < x \<and> x < 9)) \<Longrightarrow>
     filter (\<lambda>x. (6 < x \<and> x < 7) \<or> (8 < x \<and> x < 9)) xs = []"
  by (induction xs) auto

text \<open>
  When no normalized score lies strictly between 6 and 7 or strictly between 8 and 9,
  the three percentages sum to within 0.15 of 100.
\<close>

lemma pct_sum_in_bands:
  "(calculate_metrics df_sub p = Some m \<and>
    (\<forall>x \<in> set (scale_notes (map Nota df_sub)). \<not> (6 < x \<and> x < 7) \<and> \<not> (8 < x \<and> x < 9)) \<longrightarrow>
      \<bar>prom_pct m + pass_pct m + det_pct m - 100\<bar> \<le> 15 / 100) \<and>
   (notes \<noteq> [] \<and> (\<forall>x \<in> set notes. \<not> (6 < x \<and> x < 7) \<and> \<not> (8 < x \<and> x < 9)) \<longrightarrow>
      \<bar>s_prom (nps_entry notes) + s_neu (nps_entry notes) + s_detr (nps_entry notes) - 100\<bar>
        \<le> 15 / 100)"
proof (intro conjI impI)
  assume a: "calculate_metrics df_sub p = Some m \<and>
    (\<forall>x \<in> set (scale_notes (map Nota df_sub)). \<not> (6 < x \<and> x < 7) \<and> \<not> (8 < x \<and> x < 9))"
  then have m: "calculate_metrics df_sub p = Some m" by simp
  then have ne: "df_sub \<noteq> []" by (auto simp: calculate_metrics_def)
  let ?ns = "scale_notes (map Nota df_sub)"
  let ?P = "length (filter (\<lambda>x. x \<ge> 9) ?ns)"
  let ?A = "length (filter (\<lambda>x. x \<ge> 7 \<and> x \<le> 8) ?ns)"
  let ?D = "length (filter (\<lambda>x. x \<le> 6) ?ns)"
  let ?G = "length (filter (\<lambda>x. (6 < x \<and> x < 7) \<or> (8 < x \<and> x < 9)) ?ns)"
  let ?T = "length df_sub"
  have T: "0 < ?T" using ne by simp
  have part: "?P + ?A + ?D + ?G = ?T"
    using band_partition [of ?ns] by (simp add: length_scale_notes)
  have f: "prom_pct m = py_round ((real ?P / real ?T) * 100) 1"
    "pass_pct m = py_round ((real ?A / real ?T) * 100) 1"
    "det_pct m = py_round ((real ?D / real ?T) * 100) 1"
    using m by (auto simp: calculate_metrics_Some [OF ne])
  have c: "\<bar>prom_pct m + pass_pct m + det_pct m - 100 * real (?P + ?A + ?D) / real ?T\<bar> \<le> 15 / 100"
    unfolding f by (rule pct_sum_close [OF T])
  from a have "?G = 0" by (simp add: no_gap_filter)
  with part have "?P + ?A + ?D = ?T" by linarith
  then have "100 * real (?P + ?A + ?D) / real ?T = 100" using T by simp
  with c show "\<bar>prom_pct m + pass_pct m + det_pct m - 100\<bar> \<le> 15 / 100"
    by linarith
next
  assume a: "notes \<noteq> [] \<and> (\<forall>x \<in> set notes. \<not> (6 < x \<and> x < 7) \<and> \<not> (8 < x \<and> x < 9))"
  let ?P = "length (filter (\<lambda>x. x \<ge> 9) notes)"
  let ?A = "length (filter (\<lambda>x. x \<ge> 7 \<and> x \<le> 8) notes)"
  let ?D = "length (filter (\<lambda>x. x \<le> 6) notes)"
  let ?T = "length notes"
  have T: "0 < ?T" using a by simp
  have "filter (\<lambda>x. (6 < x \<and> x < 7) \<or> (8 < x \<and> x < 9)) notes = []"
    using a by (intro no_gap_filter) blast
  with band_partition [of "notes"] have "?P + ?A + ?D = ?T" by simp
  then have e: "100 * real (?P + ?A + ?D) / real ?T = 100" using T by simp
  have f: "s_prom (nps_entry notes) = py_round ((real ?P / real ?T) * 100) 1"
    "s_neu (nps_entry notes) = py_round ((real ?A / real ?T) * 100) 1"
    "s_detr (nps_entry notes) = py_round ((real ?D / real ?T) * 100) 1"
    by (simp_all add: nps_entry_def Let_def)
  show "\<bar>s_prom (nps_entry notes) + s_neu (nps_entry notes) + s_detr (nps_entry notes) - 100\<bar>
        \<le> 15 / 100"
    unfolding f using pct_sum_close [OF T, of ?P ?A ?D] e by linarith
qed

lemma ex_rows_65_85:
  "ex_rows [65, 85] =
     [ex_row 0 (Some ''X'') ''O Shopping'' ''Fim'' 65, ex_row 1 (Some ''X'') ''O Shopping'' ''Fim'' 85]"
  by (simp add: ex_rows_def)

lemma ex_65_85_selection:
  "df_2025 (ex_rows [65, 85]) =
     [ex_row 0 (Some ''X'') ''O Shopping'' ''Fim'' (65 / 10),
      ex_row 1 (Some ''X'') ''O Shopping'' ''Fim'' (85 / 10)]"
  unfolding ex_rows_65_85 by (simp add: sel_defs)

lemma ex_65_85_shoppings: "shoppings (pivot (df_2025 (ex_rows [65, 85]))) = [''X'']"
  unfolding ex_65_85_selection
  by (simp add: pivot_def Let_def shoppings_def shop_map_def unique_def List.map_filter_def ex_row_def)

text \<open>
  C6. The property fails on the code for scores that normalization makes fractional. Two
  finished respondents of one entity with raw target scores 65 and 85 are rescaled to
  6.5 and 8.5; the period table reports 0, 0 and 0 percent promoters, passives and
  detractors, and so does the snapshot of the topic-classification pipeline, while the
  roster of that same pipeline labels the same two scores detractor and passive.
\<close>

theorem pct_sum_gap_scores:
  "(\<exists>m. calculate_metrics (ex_rows [65, 85]) ''2025'' = Some m \<and> m_total m = 2 \<and>
        prom_pct m = 0 \<and> pass_pct m = 0 \<and> det_pct m = 0) \<and>
   map (\<lambda>(c, e). (c, s_n e, s_prom e, s_neu e, s_detr e)) (nps_static (ex_rows [65, 85]))
     = [(''X'', 2, 0, 0, 0)] \<and>
   map (\<lambda>(c, l). (c, map (\<lambda>e. (e_s e, e_c e)) l)) (lojistas_list True id id (ex_rows [65, 85]))
     = [(''X'', [(65 / 10, ''detr''), (85 / 10, ''pass'')])]"
proof -
  have ne: "ex_rows [65, 85] \<noteq> []" by (simp add: ex_rows_def)
  have sc: "scale_notes [65, 85] = [65 / 10, 85 / 10]" by (simp add: scale_notes_def f_gt_def)
  have r: "py_round 0 1 = 0" by (simp add: py_round_def rint_def Let_def)
  have len: "length (ex_rows [65, 85]) = 2" by (simp add: ex_rows_def)
  have 1: "\<exists>m. calculate_metrics (ex_rows [65, 85]) ''2025'' = Some m \<and> m_total m = 2 \<and>
        prom_pct m = 0 \<and> pass_pct m = 0 \<and> det_pct m = 0"
    using r by (simp add: calculate_metrics_Some [OF ne] Nota_ex_rows sc len)
  have 2: "map (\<lambda>(c, e). (c, s_n e, s_prom e, s_neu e, s_detr e)) (nps_static (ex_rows [65, 85]))
     = [(''X'', 2, 0, 0, 0)]"
    using r unfolding nps_static_def ex_65_85_shoppings
    unfolding ex_65_85_selection
    by (simp add: List.map_filter_def ex_row_def TARGET_def nps_entry_def Let_def)
  have 3: "map (\<lambda>(c, l). (c, map (\<lambda>e. (e_s e, e_c e)) l)) (lojistas_list True id id (ex_rows [65, 85]))
     = [(''X'', [(65 / 10, ''detr''), (85 / 10, ''pass'')])]"
    unfolding lojistas_list_def Let_def ex_65_85_shoppings
    unfolding ex_65_85_selection
    by (simp add: s_data_def sub_frame_def pivot_def Let_def shop_map_def unique_def
        ex_row_def TARGET_def mk_entry_def)
  from 1 2 3 show ?thesis by simp
qed

section \<open>Score normalization\<close>

lemma f_gt_col_max_Max: "f_gt (col_max xs) b \<longleftrightarrow> xs \<noteq> [] \<and> Max (set xs) > b"
proof (cases "xs = []")
  case True
  then show ?thesis by (simp add: f_gt_def)
next
  case False
  then show ?thesis by (simp add: f_gt_col_max Max_gr_iff)
qed

lemma scale_notes_spec: "scale_notes notes = map (spec_normalize notes) notes"
proof (cases "f_gt (col_max notes) 10")
  case True
  then have "spec_normalize notes = (\<lambda>x. x / 10)"
    by (auto simp: f_gt_col_max_Max spec_normalize_def)
  with True show ?thesis by (simp add: scale_notes_def)
next
  case False
  then have "spec_normalize notes = (\<lambda>x. x)"
    by (auto simp: f_gt_col_max_Max spec_normalize_def)
  with False show ?thesis by (simp add: scale_notes_def)
qed





section \<open>Topic statistics of the pivot\<close>

lemma length_valid_pairs: "length (valid_pairs (prows fr) t) = spec_paired_count fr t"
proof -
  have "length (valid_pairs rows t)
          = length (filter (\<lambda>w. p_vals w t \<noteq> None \<and> p_vals w TARGET \<noteq> None) rows)" for rows :: "'a prow list"
    by (induction rows) (auto simp: valid_pairs_def List.map_filter_def split: option.splits)
  then show ?thesis by (simp add: spec_paired_count_def)
qed







lemma stat_t_in_themes:
  "s \<in> set (calculate_stats fr ths) \<Longrightarrow> stat_t s \<in> set ths"
  by (auto simp: calculate_stats_set stat_t_theme_stat)

lemma themes_exclude: "TARGET \<notin> set (themes pv)" "''ShoppingCode'' \<notin> set (themes pv)"
  by (simp_all add: themes_def)

lemma emitted_iff:
  "(\<exists>s \<in> set (calculate_stats fr ths). stat_t s = t) \<longleftrightarrow>
     TARGET \<in> set (columns fr) \<and> t \<in> set ths \<and> t \<in> set (columns fr) \<and> 5 \<le> spec_paired_count fr t"
  by (auto simp: calculate_stats_set stat_t_theme_stat length_valid_pairs)



lemma set_map_filter_Some: "y \<in> set (List.map_filter f xs) \<longleftrightarrow> (\<exists>x \<in> set xs. f x = Some y)"
  by (induction xs) (auto simp: List.map_filter_simps split: option.splits)










lemma ex_answers_5:
  "ex_answers 5 =
     [ex_row 0 (Some ''X'') ''O Shopping'' ''Fim'' 10, ex_row 0 (Some ''X'') ''A'' ''Fim'' 10,
      ex_row 1 (Some ''X'') ''O Shopping'' ''Fim'' 9, ex_row 1 (Some ''X'') ''A'' ''Fim'' 9,
      ex_row 2 (Some ''X'') ''O Shopping'' ''Fim'' 8, ex_row 2 (Some ''X'') ''A'' ''Fim'' 8,
      ex_row 3 (Some ''X'') ''O Shopping'' ''Fim'' 7, ex_row 3 (Some ''X'') ''A'' ''Fim'' 7,
      ex_row 4 (Some ''X'') ''O Shopping'' ''Fim'' 6, ex_row 4 (Some ''X'') ''A'' ''Fim'' 6]"
  by (simp add: ex_answers_def upt_rec eval_nat_numeral)

lemma ex5_themes: "themes (pivot (df_2025 (ex_answers 5))) = [''A'']"
  unfolding ex_answers_5 by (simp add: sel_defs)

lemma ex5_count: "spec_paired_count (pivot (df_2025 (ex_answers 5))) ''A'' = 5"
  unfolding ex_answers_5 by (simp add: sel_defs spec_paired_count_def)









lemma ex5_global_emits: "\<exists>s \<in> set (kano_global (ex_answers 5)). stat_t s = ''A''"
proof -
  have "\<exists>s \<in> set (calculate_stats (pivot (df_2025 (ex_answers 5))) [''A'']). stat_t s = ''A''"
    unfolding emitted_iff ex5_count
    unfolding ex_answers_5 by (simp add: sel_defs)
  then show ?thesis by (simp add: kano_global_def Let_def ex5_themes)
qed

text \<open>
  C10. The analysed themes are the columns of the pivot other than the target topic and
  the entity-code column, so no topic statistic of the global table or of a per-entity
  table has the target topic (or the entity-code column) as its topic.
\<close>

theorem target_never_classified:
  "TARGET \<notin> set (themes pv) \<and> ''ShoppingCode'' \<notin> set (themes pv) \<and>
   (\<forall>s \<in> set (kano_global df). stat_t s \<noteq> TARGET \<and> stat_t s \<noteq> ''ShoppingCode'') \<and>
   (\<forall>e \<in> set (kano_by_shop df). \<forall>s \<in> set (snd e).
       stat_t s \<noteq> TARGET \<and> stat_t s \<noteq> ''ShoppingCode'')"
proof (intro conjI ballI)
  show "TARGET \<notin> set (themes pv)" "''ShoppingCode'' \<notin> set (themes pv)"
    by (rule themes_exclude)+
next
  fix s assume "s \<in> set (kano_global df)"
  then have "stat_t s \<in> set (themes (pivot (df_2025 df)))"
    by (auto simp: kano_global_def Let_def dest: stat_t_in_themes)
  then show "stat_t s \<noteq> TARGET" "stat_t s \<noteq> ''ShoppingCode''"
    using themes_exclude [of "pivot (df_2025 df)"] by auto
next
  fix e s assume "e \<in> set (kano_by_shop df)" "s \<in> set (snd e)"
  then have "stat_t s \<in> set (themes (pivot (df_2025 df)))"
    by (auto simp: kano_by_shop_def Let_def dest: stat_t_in_themes)
  then show "stat_t s \<noteq> TARGET" "stat_t s \<noteq> ''ShoppingCode''"
    using themes_exclude [of "pivot (df_2025 df)"] by auto
qed

theorem target_never_classified_witness:
  "kano_global (ex_answers 5) \<noteq> [] \<and>
   list_all (\<lambda>s. stat_t s \<noteq> TARGET \<and> stat_t s \<noteq> ''ShoppingCode'') (kano_global (ex_answers 5))"
proof -
  have "kano_global (ex_answers 5) \<noteq> []" using ex5_global_emits by auto
  moreover have "\<forall>s \<in> set (kano_global (ex_answers 5)).
      stat_t s \<noteq> TARGET \<and> stat_t s \<noteq> ''ShoppingCode''"
    using target_never_classified [of "pivot (df_2025 (ex_answers 5))" "ex_answers 5"] by blast
  ultimately show ?thesis by (simp add: list_all_iff)
qed

text \<open>
  An undefined correlation always yields the emitted correlation 0 and the category
  performance, whatever the mean.
\<close>

lemma corr_None_stat:
  "corr (map fst valid) (map snd valid) = None \<Longrightarrow>
     stat_r (theme_stat t valid) = 0 \<and> stat_cat (theme_stat t valid) = Per"
  by (simp add: theme_stat_def Let_def classify_def f_lt_def f_ge_def)

lemma ex_flat_rows:
  "ex_flat =
     [ex_row 0 (Some ''X'') ''O Shopping'' ''Fim'' 10, ex_row 0 (Some ''X'') ''A'' ''Fim'' 10,
      ex_row 1 (Some ''X'') ''O Shopping'' ''Fim'' 9, ex_row 1 (Some ''X'') ''A'' ''Fim'' 10,
      ex_row 2 (Some ''X'') ''O Shopping'' ''Fim'' 8, ex_row 2 (Some ''X'') ''A'' ''Fim'' 10,
      ex_row 3 (Some ''X'') ''O Shopping'' ''Fim'' 7, ex_row 3 (Some ''X'') ''A'' ''Fim'' 10,
      ex_row 4 (Some ''X'') ''O Shopping'' ''Fim'' 6, ex_row 4 (Some ''X'') ''A'' ''Fim'' 10]"
  by (simp add: ex_flat_def upt_rec eval_nat_numeral)

lemma ex_flat_pairs:
  "valid_pairs (prows (pivot (df_2025 ex_flat))) ''A'' = [(10, 10), (10, 9), (10, 8), (10, 7), (10, 6)]"
  unfolding ex_flat_rows by (simp add: sel_defs valid_pairs_def List.map_filter_def mean_f_def)

lemma ex_flat_global:
  "kano_global ex_flat = [theme_stat ''A'' [(10, 10), (10, 9), (10, 8), (10, 7), (10, 6)]]"
proof -
  have th: "themes (pivot (df_2025 ex_flat)) = [''A'']"
    unfolding ex_flat_rows by (simp add: sel_defs)
  have cols: "columns (pivot (df_2025 ex_flat)) = [''A'', ''O Shopping'', ''ShoppingCode'']"
    unfolding ex_flat_rows by (simp add: sel_defs)
  show ?thesis
    by (simp add: kano_global_def Let_def th calculate_stats_def cols TARGET_def ex_flat_pairs)
qed

text \<open>
  C7. Five respondents give topic A the score 10 and the target topic 10, 9, 8, 7, 6:
  the correlation is undefined, the emitted correlation field is 0, and the emitted
  category is performance, where the ordered rules give basic for mean 10 and r = 0.
  The category is computed from the undefined correlation, on which every comparison
  is false; only the emitted field is replaced by 0.
\<close>

theorem undefined_corr_is_performance:
  "corr [10, 10, 10, 10, 10] [10, 9, 8, 7, 6] = None \<and>
   map (\<lambda>s. (stat_t s, stat_m s, stat_r s, stat_n s, stat_cat s)) (kano_global ex_flat)
     = [(''A'', 10, 0, 5, Per)] \<and>
   classify 10 (Some 0) = Bas"
proof -
  have c: "corr [10, 10, 10, 10, 10] [10, 9, 8, 7, 6] = None"
    by (simp add: corr_def mean_f_def Let_def)
  have r: "py_round 10 2 = 10" by (simp add: py_round_def rint_def Let_def)
  have "map (\<lambda>s. (stat_t s, stat_m s, stat_r s, stat_n s, stat_cat s)) (kano_global ex_flat)
     = [(''A'', 10, 0, 5, Per)]"
    using c r by (simp add: ex_flat_global theme_stat_def Let_def mean_f_def classify_def f_lt_def f_ge_def)
  moreover have "classify 10 (Some 0) = Bas" by (simp add: classify_def f_lt_def)
  ultimately show ?thesis using c by simp
qed

section \<open>Response selection\<close>

lemma set_unique: "set (unique xs) = set xs"
  by (simp add: unique_def)

lemma valid_ids_iff:
  "i \<in> set (valid_ids df) \<longleftrightarrow>
     (\<exists>q \<in> set df. map_period (Pesquisa q) = ''2025'' \<and> ResponseID q = i \<and>
                     Tema q = TARGET \<and> Momento q = ''Fim'')"
  by (auto simp: valid_ids_def set_unique df_2025_raw_def)

lemma df_2025_sel_iff:
  "w \<in> set (df_2025_sel df) \<longleftrightarrow>
     w \<in> set df \<and> map_period (Pesquisa w) = ''2025'' \<and>
     ResponseID w \<in> set (valid_ids df) \<and>
     (Tema w = TARGET \<longrightarrow> Momento w = ''Fim'')"
  by (auto simp: df_2025_sel_def df_2025_raw_def condition_def)

lemma ResponseID_normalize: "map ResponseID (normalize_nota rows) = map ResponseID rows"
  by (simp add: normalize_nota_def comp_def)

lemma ResponseID_df_2025: "ResponseID ` set (df_2025 df) \<subseteq> set (valid_ids df)"
proof -
  have "ResponseID ` set (df_2025 df) = set (map ResponseID (df_2025 df))" by simp
  also have "\<dots> = ResponseID ` set (df_2025_sel df)"
    by (simp add: df_2025_def ResponseID_normalize)
  also have "\<dots> \<subseteq> set (valid_ids df)" by (auto simp: df_2025_sel_iff)
  finally show ?thesis .
qed

lemma index_pivot: "p_index ` set (prows (pivot rows)) = ResponseID ` set rows"
  by (auto simp: pivot_def Let_def image_iff)

lemma valid_ids_filter:
  "valid_ids (filter (\<lambda>w. ResponseID w \<in> set (valid_ids df)) df) = valid_ids df"
proof -
  have "filter (\<lambda>w. Tema w = TARGET \<and> Momento w = ''Fim'')
          (df_2025_raw (filter (\<lambda>w. ResponseID w \<in> set (valid_ids df)) df))
        = filter (\<lambda>w. Tema w = TARGET \<and> Momento w = ''Fim'') (df_2025_raw df)"
    unfolding df_2025_raw_def filter_filter
    by (rule filter_cong) (auto simp: valid_ids_iff)
  then show ?thesis by (simp add: valid_ids_def)
qed

lemma df_2025_sel_filter:
  "df_2025_sel (filter (\<lambda>w. ResponseID w \<in> set (valid_ids df)) df) = df_2025_sel df"
  unfolding df_2025_sel_def valid_ids_filter
  unfolding df_2025_raw_def filter_filter
  by (rule filter_cong) auto

lemma df_2025_filter:
  "df_2025 (filter (\<lambda>w. ResponseID w \<in> set (valid_ids df)) df) = df_2025 df"
  by (simp add: df_2025_def df_2025_sel_filter)

lemma output_js_filter:
  "output_js has_loja upper strip (filter (\<lambda>w. ResponseID w \<in> set (valid_ids df)) df)
     = output_js has_loja upper strip df"
  by (simp add: output_js_def kano_global_def kano_by_shop_def heatmap_def nps_static_def
      lojistas_list_def df_2025_filter)

text \<open>
  C4. A row is selected for the topic-classification pipeline exactly when it is a row
  of period 2025 whose respondent has a finished target-topic row in that period, and
  it is either a row of another topic or itself a finished target-topic row. Every
  respondent of the pivot has a finished target-topic row in the period. The whole
  output (global table, per-entity tables, heatmap, snapshot and roster) is unchanged
  when all rows of the respondents without such a row are removed from the input.
\<close>

theorem unfinished_respondents_excluded:
  "(w \<in> set (df_2025_sel df) \<longleftrightarrow>
      w \<in> set df \<and> map_period (Pesquisa w) = ''2025'' \<and>
      (\<exists>q \<in> set df. map_period (Pesquisa q) = ''2025'' \<and> ResponseID q = ResponseID w \<and>
                      Tema q = TARGET \<and> Momento q = ''Fim'') \<and>
      (Tema w = TARGET \<longrightarrow> Momento w = ''Fim'')) \<and>
   (i \<in> p_index ` set (prows (pivot (df_2025 df))) \<longrightarrow>
      (\<exists>q \<in> set df. map_period (Pesquisa q) = ''2025'' \<and> ResponseID q = i \<and>
                      Tema q = TARGET \<and> Momento q = ''Fim'')) \<and>
   output_js has_loja upper strip
       (filter (\<lambda>w. \<exists>q \<in> set df. map_period (Pesquisa q) = ''2025'' \<and> ResponseID q = ResponseID w \<and>
                                     Tema q = TARGET \<and> Momento q = ''Fim'') df)
     = output_js has_loja upper strip df"
proof (intro conjI impI)
  show "w \<in> set (df_2025_sel df) \<longleftrightarrow>
      w \<in> set df \<and> map_period (Pesquisa w) = ''2025'' \<and>
      (\<exists>q \<in> set df. map_period (Pesquisa q) = ''2025'' \<and> ResponseID q = ResponseID w \<and>
                      Tema q = TARGET \<and> Momento q = ''Fim'') \<and>
      (Tema w = TARGET \<longrightarrow> Momento w = ''Fim'')"
    unfolding df_2025_sel_iff valid_ids_iff ..
next
  assume "i \<in> p_index ` set (prows (pivot (df_2025 df)))"
  then have "i \<in> set (valid_ids df)"
    using ResponseID_df_2025 [of df] by (auto simp: index_pivot)
  then show "\<exists>q \<in> set df. map_period (Pesquisa q) = ''2025'' \<and> ResponseID q = i \<and>
                      Tema q = TARGET \<and> Momento q = ''Fim''"
    by (simp add: valid_ids_iff)
next
  show "output_js has_loja upper strip
       (filter (\<lambda>w. \<exists>q \<in> set df. map_period (Pesquisa q) = ''2025'' \<and> ResponseID q = ResponseID w \<and>
                                     Tema q = TARGET \<and> Momento q = ''Fim'') df)
     = output_js has_loja upper strip df"
    using output_js_filter [of has_loja upper strip df] by (simp add: valid_ids_iff)
qed


lemma ex_survey_rows:
  "ex_survey =
     [ex_row 0 (Some ''X'') ''O Shopping'' ''Fim'' 10, ex_row 0 (Some ''X'') ''A'' ''Fim'' 10,
      ex_row 1 (Some ''X'') ''O Shopping'' ''Fim'' 9, ex_row 1 (Some ''X'') ''A'' ''Fim'' 9,
      ex_row 2 (Some ''X'') ''O Shopping'' ''Fim'' 8, ex_row 2 (Some ''X'') ''A'' ''Fim'' 8,
      ex_row 3 (Some ''X'') ''O Shopping'' ''Fim'' 7, ex_row 3 (Some ''X'') ''A'' ''Fim'' 7,
      ex_row 4 (Some ''X'') ''O Shopping'' ''Fim'' 6, ex_row 4 (Some ''X'') ''A'' ''Fim'' 6,
      ex_row 5 (Some ''X'') ''O Shopping'' ''Inicio'' 3, ex_row 5 (Some ''X'') ''A'' ''Inicio'' 3]"
  by (simp add: ex_survey_def ex_answers_5)

lemma ex_survey_finished:
  "(\<exists>q \<in> set ex_survey. map_period (Pesquisa q) = ''2025'' \<and> ResponseID q = i \<and>
                      Tema q = TARGET \<and> Momento q = ''Fim'') \<longleftrightarrow> i \<in> {0, 1, 2, 3, 4}"
  unfolding ex_survey_rows by (auto simp: ex_row_def TARGET_def sublist_code)

lemma ex_survey_valid_rows:
  "filter (\<lambda>w. \<exists>q \<in> set ex_survey. map_period (Pesquisa q) = ''2025'' \<and> ResponseID q = ResponseID w \<and>
                                     Tema q = TARGET \<and> Momento q = ''Fim'') ex_survey = ex_answers 5"
  unfolding ex_survey_finished
  unfolding ex_survey_rows ex_answers_5 by (simp add: ex_row_def)

theorem unfinished_respondents_excluded_witness:
  "ex_row 5 (Some ''X'') ''A'' ''Inicio'' 3 \<in> set ex_survey \<and>
   ex_row 5 (Some ''X'') ''A'' ''Inicio'' 3 \<notin> set (df_2025_sel ex_survey) \<and>
   ex_row 0 (Some ''X'') ''A'' ''Fim'' 10 \<in> set (df_2025_sel ex_survey) \<and>
   5 \<notin> p_index ` set (prows (pivot (df_2025 ex_survey))) \<and>
   output_js True id id (ex_answers 5) = output_js True id id ex_survey"
proof -
  note c = unfinished_respondents_excluded [where df = ex_survey]
  have in5: "ex_row 5 (Some ''X'') ''A'' ''Inicio'' 3 \<in> set ex_survey"
    and in0: "ex_row 0 (Some ''X'') ''A'' ''Fim'' 10 \<in> set ex_survey"
    by (simp_all add: ex_survey_rows)
  have id5: "ResponseID (ex_row 5 (Some ''X'') ''A'' ''Inicio'' 3) = 5"
    and id0: "ResponseID (ex_row 0 (Some ''X'') ''A'' ''Fim'' 10) = 0"
    and p0: "map_period (Pesquisa (ex_row 0 (Some ''X'') ''A'' ''Fim'' 10)) = ''2025''"
    and t0: "Tema (ex_row 0 (Some ''X'') ''A'' ''Fim'' 10) \<noteq> TARGET"
    by (simp_all add: ex_row_def sublist_code TARGET_def)
  from c [of "ex_row 5 (Some ''X'') ''A'' ''Inicio'' 3"]
  have 1: "ex_row 5 (Some ''X'') ''A'' ''Inicio'' 3 \<notin> set (df_2025_sel ex_survey)"
    by (simp add: ex_survey_finished id5)
  from c [of "ex_row 0 (Some ''X'') ''A'' ''Fim'' 10"]
  have 2: "ex_row 0 (Some ''X'') ''A'' ''Fim'' 10 \<in> set (df_2025_sel ex_survey)"
    by (simp add: ex_survey_finished id0 in0 p0 t0)
  from c [where i = 5]
  have 3: "5 \<notin> p_index ` set (prows (pivot (df_2025 ex_survey)))"
    by (auto simp: ex_survey_finished)
  from c [where has_loja = True and upper = id and strip = id]
  have 4: "output_js True id id (ex_answers 5) = output_js True id id ex_survey"
    by (simp add: ex_survey_valid_rows)
  from in5 1 2 3 4 show ?thesis by simp
qed

section \<open>The matrix report\<close>

lemma set_portfolio:
  "set (portfolio rows) =
     (\<lambda>p. \<lparr>r_ShoppingCode = ''PORTFOLIO'', r_Period = p,
            r_series = get_metrics (filter (\<lambda>w. Period w = p) rows)\<rparr>) ` Period ` set rows"
  by (simp add: portfolio_def)

lemma set_final_df: "set (final_df df) = set (grouped (df_fim df)) \<union> set (portfolio (df_fim df))"
  by (simp add: final_df_def Let_def)

lemma ex_pool_fim: "df_fim ex_pool = ex_pool"
  by (simp add: df_fim_def df_nps_def ex_pool_def ex_row_def Period_def sublist_code)

lemma ex_pool_final:
  "map (\<lambda>m. (r_ShoppingCode m, r_Period m, r_N (r_series m), r_NPS (r_series m))) (final_df ex_pool)
     = [(''A'', ''2025'', 1, Some 100), (''PORTFOLIO'', ''2025'', 2, Some 0)]"
  unfolding final_df_def ex_pool_fim Let_def
  by (simp add: ex_pool_def ex_row_def grouped_def portfolio_def Period_def sublist_code
      List.map_filter_def get_metrics_def scale_notes_def f_gt_def Let_def)


lemma ex_two_fim: "df_fim ex_two = ex_two"
  by (simp add: df_fim_def df_nps_def ex_two_def ex_row_def Period_def sublist_code)

lemma ex_two_final:
  "map (\<lambda>m. (r_ShoppingCode m, r_NPS (r_series m))) (final_df ex_two)
     = [(''A'', Some 100), (''B'', Some (- 100)), (''PORTFOLIO'', Some (- 50))]"
  unfolding final_df_def ex_two_fim Let_def
  by (simp add: ex_two_def ex_row_def grouped_def portfolio_def Period_def sublist_code
      List.map_filter_def get_metrics_def scale_notes_def f_gt_def Let_def)

lemma drop_duplicates_keep_first:
  "drop_duplicates key seen xs = spec_keep_first key (filter (\<lambda>x. key x \<notin> set seen) xs)"
proof (induction xs arbitrary: seen)
  case Nil
  then show ?case by simp
next
  case (Cons x xs)
  show ?case
  proof (cases "key x \<in> set seen")
    case True
    with Cons show ?thesis by simp
  next
    case False
    have "filter (\<lambda>y. key y \<noteq> key x) (filter (\<lambda>x. key x \<notin> set seen) xs)
            = filter (\<lambda>y. key y \<notin> set (key x # seen)) xs"
      by (auto intro: filter_cong)
    with False Cons [of "key x # seen"] show ?thesis by simp
  qed
qed

lemma df_fim_keep_first:
  "df_fim df = spec_keep_first (\<lambda>w. (Period w, ResponseID w))
                 (filter (\<lambda>w. Tema w = ''O Shopping'' \<and> Momento w = ''Fim'') df)"
  by (simp add: df_fim_def df_nps_def drop_duplicates_keep_first conj_commute)

lemma length_filter_disj:
  "\<forall>x \<in> set xs. \<not> (P x \<and> Q x) \<Longrightarrow>
     length (filter P xs) + length (filter Q xs) = length (filter (\<lambda>x. P x \<or> Q x) xs)"
  by (induction xs) auto

lemma sum_group_sizes:
  "distinct ks \<Longrightarrow>
     (\<Sum>k \<leftarrow> ks. length (filter (\<lambda>w. f w = k) xs)) = length (filter (\<lambda>w. f w \<in> set ks) xs)"
proof (induction ks)
  case Nil
  then show ?case by simp
next
  case (Cons k ks)
  then have "\<forall>w \<in> set xs. \<not> (f w = k \<and> f w \<in> set ks)" by auto
  from length_filter_disj [OF this] Cons show ?case by simp
qed

lemma r_N_get_metrics: "r_N (get_metrics x) = length x"
  by (simp add: get_metrics_def Let_def)

lemma grouped_keys:
  "k \<in> set (List.map_filter (\<lambda>w. case ShoppingCode w of None \<Rightarrow> None | Some c \<Rightarrow> Some (c, Period w)) rows)
     \<longleftrightarrow> (\<exists>w \<in> set rows. ShoppingCode w = Some (fst k) \<and> Period w = snd k)"
proof -
  have "(case ShoppingCode w of None \<Rightarrow> None | Some c \<Rightarrow> Some (c, Period w)) = Some k
          \<longleftrightarrow> ShoppingCode w = Some (fst k) \<and> Period w = snd k" for w :: "'a row"
    by (cases "ShoppingCode w") (auto simp: prod_eq_iff)
  then show ?thesis by (simp add: set_map_filter_Some)
qed

lemma grouped_N_sum:
  "(\<Sum>g \<leftarrow> filter (\<lambda>g. r_Period g = p) (grouped rows). r_N (r_series g))
     = length (spec_entities_union rows p)"
proof -
  define K where "K = List.map_filter
      (\<lambda>w. case ShoppingCode w of None \<Rightarrow> None | Some c \<Rightarrow> Some (c, Period w)) rows"
  define ks where "ks = filter (\<lambda>k. snd k = p) (sort (remdups K))"
  define h :: "string \<times> string \<Rightarrow> string option \<times> string" where "h = (\<lambda>k. (Some (fst k), snd k))"
  define f :: "'a row \<Rightarrow> string option \<times> string" where "f = (\<lambda>w. (ShoppingCode w, Period w))"
  have mem: "k \<in> set ks \<longleftrightarrow>
               (\<exists>v \<in> set rows. ShoppingCode v = Some (fst k) \<and> Period v = snd k) \<and> snd k = p" for k
    unfolding ks_def K_def by (simp add: grouped_keys)
  have dks: "distinct ks" unfolding ks_def by simp
  have "inj_on h (set ks)" unfolding h_def by (auto simp: inj_on_def prod_eq_iff)
  with dks have dh: "distinct (map h ks)" by (simp add: distinct_map)
  have "(\<Sum>g \<leftarrow> filter (\<lambda>g. r_Period g = p) (grouped rows). r_N (r_series g))
          = (\<Sum>k \<leftarrow> ks. length (filter (\<lambda>w. f w = h k) rows))"
    unfolding ks_def K_def h_def f_def
    by (simp add: grouped_def filter_map comp_def split_def r_N_get_metrics)
  also have "\<dots> = (\<Sum>k \<leftarrow> map h ks. length (filter (\<lambda>w. f w = k) rows))"
    by (simp add: comp_def)
  also have "\<dots> = length (filter (\<lambda>w. f w \<in> set (map h ks)) rows)"
    by (rule sum_group_sizes [OF dh])
  also have "\<dots> = length (filter (\<lambda>w. ShoppingCode w \<noteq> None \<and> Period w = p) rows)"
  proof (rule arg_cong [where f = length], rule filter_cong [OF refl])
    fix w assume w: "w \<in> set rows"
    show "(f w \<in> set (map h ks)) = (ShoppingCode w \<noteq> None \<and> Period w = p)"
    proof
      assume "f w \<in> set (map h ks)"
      then obtain k where k: "k \<in> set ks" "f w = h k" by auto
      from k(2) have "ShoppingCode w = Some (fst k)" "Period w = snd k"
        unfolding f_def h_def by simp_all
      moreover from k(1) have "snd k = p" unfolding mem by simp
      ultimately show "ShoppingCode w \<noteq> None \<and> Period w = p" by simp
    next
      assume a: "ShoppingCode w \<noteq> None \<and> Period w = p"
      then obtain c where c: "ShoppingCode w = Some c" by auto
      have "(c, p) \<in> set ks"
        unfolding mem using a c w by (intro conjI bexI [of _ w]) simp_all
      then have "h (c, p) \<in> h ` set ks" by (rule imageI)
      moreover have "f w = h (c, p)" unfolding f_def h_def using a c by simp
      ultimately show "f w \<in> set (map h ks)" by simp
    qed
  qed
  finally show ?thesis by (simp add: spec_entities_union_def)
qed

lemma pool_split:
  "length (filter (\<lambda>w. Period w = p) rows)
     = length (spec_entities_union rows p)
       + length (filter (\<lambda>w. ShoppingCode w = None \<and> Period w = p) rows)"
proof -
  have "\<forall>w \<in> set rows. \<not> ((ShoppingCode w \<noteq> None \<and> Period w = p) \<and> (ShoppingCode w = None \<and> Period w = p))"
    by auto
  from length_filter_disj [OF this]
  have "length (spec_entities_union rows p)
       + length (filter (\<lambda>w. ShoppingCode w = None \<and> Period w = p) rows)
       = length (filter (\<lambda>w. (ShoppingCode w \<noteq> None \<and> Period w = p) \<or> (ShoppingCode w = None \<and> Period w = p)) rows)"
    by (simp add: spec_entities_union_def)
  also have "\<dots> = length (filter (\<lambda>w. Period w = p) rows)"
    by (rule arg_cong [where f = length], rule filter_cong) auto
  finally show ?thesis by simp
qed

lemma get_metrics_spec: "get_metrics x = spec_metric x"
proof (cases "x = []")
  case True
  then show ?thesis by (simp add: get_metrics_def spec_metric_def)
next
  case False
  have "scale_notes (map Nota x) = map (\<lambda>w. spec_normalize (map Nota x) (Nota w)) x"
    by (simp add: scale_notes_spec comp_def)
  with False show ?thesis
    by (simp add: get_metrics_nonempty spec_metric_def Let_def)
qed

lemma portfolio_periods: "map r_Period (portfolio rows) = sort (remdups (map Period rows))"
  by (simp add: portfolio_def comp_def)

text \<open>
  C8, amended. The rows of the matrix report are the finished target-topic rows, the
  first of each (period, respondent) pair. The report has one portfolio row for each
  period of these rows, and its N, detractor, passive and promoter counts and NPS are
  those of the metric computed directly over all such rows of the period, the rows
  without an entity code included: N is the sum of the per-entity N of the period plus
  the number of rows of the period without an entity code, which are in no per-entity
  row. When every row of the period has an entity code the pooled rows are the union
  of the entities' rows. The portfolio NPS is not the average of the per-entity
  values: for entity A with one score 10 and entity B with three scores 0 it is -50,
  the per-entity values being 100 and -100.
\<close>

theorem portfolio_row_is_pooled_metric:
  assumes rows: "rows = df_fim df"
  shows
    "rows = spec_keep_first (\<lambda>w. (Period w, ResponseID w))
              (filter (\<lambda>w. Tema w = ''O Shopping'' \<and> Momento w = ''Fim'') df) \<and>
     map r_Period (portfolio rows) = sort (remdups (map Period rows)) \<and>
     set (final_df df) = set (grouped rows) \<union> set (portfolio rows) \<and>
     (\<forall>m \<in> set (portfolio rows).
        r_ShoppingCode m = ''PORTFOLIO'' \<and>
        r_series m = spec_metric (spec_pool rows (r_Period m)) \<and>
        r_N (r_series m)
          = (\<Sum>g \<leftarrow> filter (\<lambda>g. r_Period g = r_Period m) (grouped rows). r_N (r_series g))
            + length (filter (\<lambda>w. ShoppingCode w = None \<and> Period w = r_Period m) rows) \<and>
        ((\<forall>w \<in> set rows. Period w = r_Period m \<longrightarrow> ShoppingCode w \<noteq> None) \<longrightarrow>
           spec_pool rows (r_Period m) = spec_entities_union rows (r_Period m))) \<and>
     (\<forall>g \<in> set (grouped rows).
        r_series g = spec_metric (filter (\<lambda>w. ShoppingCode w = Some (r_ShoppingCode g) \<and>
                                              Period w = r_Period g) rows)) \<and>
     map (\<lambda>m. (r_ShoppingCode m, r_NPS (r_series m))) (final_df ex_two)
       = [(''A'', Some 100), (''B'', Some (- 100)), (''PORTFOLIO'', Some (- 50))]"
proof (intro conjI ballI impI)
  show "rows = spec_keep_first (\<lambda>w. (Period w, ResponseID w))
              (filter (\<lambda>w. Tema w = ''O Shopping'' \<and> Momento w = ''Fim'') df)"
    unfolding rows by (rule df_fim_keep_first)
next
  show "map r_Period (portfolio rows) = sort (remdups (map Period rows))"
    by (rule portfolio_periods)
next
  show "set (final_df df) = set (grouped rows) \<union> set (portfolio rows)"
    by (simp add: set_final_df rows)
next
  fix m assume m: "m \<in> set (portfolio rows)"
  then obtain p where p: "m = \<lparr>r_ShoppingCode = ''PORTFOLIO'', r_Period = p,
        r_series = get_metrics (filter (\<lambda>w. Period w = p) rows)\<rparr>"
    by (auto simp: set_portfolio)
  show "r_ShoppingCode m = ''PORTFOLIO''" by (simp add: p)
  show "r_series m = spec_metric (spec_pool rows (r_Period m))"
    by (simp add: p spec_pool_def get_metrics_spec)
  show "r_N (r_series m)
          = (\<Sum>g \<leftarrow> filter (\<lambda>g. r_Period g = r_Period m) (grouped rows). r_N (r_series g))
            + length (filter (\<lambda>w. ShoppingCode w = None \<and> Period w = r_Period m) rows)"
    by (simp add: p r_N_get_metrics grouped_N_sum pool_split)
  assume "\<forall>w \<in> set rows. Period w = r_Period m \<longrightarrow> ShoppingCode w \<noteq> None"
  then show "spec_pool rows (r_Period m) = spec_entities_union rows (r_Period m)"
    unfolding spec_pool_def spec_entities_union_def by (intro filter_cong) auto
next
  fix g assume "g \<in> set (grouped rows)"
  then show "r_series g = spec_metric (filter (\<lambda>w. ShoppingCode w = Some (r_ShoppingCode g) \<and>
                                              Period w = r_Period g) rows)"
    by (auto simp: grouped_def get_metrics_spec)
next
  show "map (\<lambda>m. (r_ShoppingCode m, r_NPS (r_series m))) (final_df ex_two)
           = [(''A'', Some 100), (''B'', Some (- 100)), (''PORTFOLIO'', Some (- 50))]"
    by (rule ex_two_final)
qed

text \<open>
  C8, as stated, fails: with one finished respondent of entity A (score 10) and one
  finished respondent without entity code (score 0) in period 2025, the portfolio row
  has N = 2 and NPS 0, while the metric over the union of the entities' rows has N = 1
  and NPS 100.
\<close>

theorem portfolio_not_entities_union_counterexample:
  "map (\<lambda>m. (r_ShoppingCode m, r_Period m, r_N (r_series m), r_NPS (r_series m))) (final_df ex_pool)
     = [(''A'', ''2025'', 1, Some 100), (''PORTFOLIO'', ''2025'', 2, Some 0)] \<and>
   r_N (get_metrics (spec_entities_union (df_fim ex_pool) ''2025'')) = 1 \<and>
   r_NPS (get_metrics (spec_entities_union (df_fim ex_pool) ''2025'')) = Some 100"
  unfolding ex_pool_final ex_pool_fim
  by (simp add: spec_entities_union_def ex_pool_def ex_row_def Period_def sublist_code
      get_metrics_def scale_notes_def f_gt_def Let_def)

theorem portfolio_row_is_pooled_metric_witness:
  "portfolio ex_pool \<noteq> [] \<and>
   list_all (\<lambda>m. r_ShoppingCode m = ''PORTFOLIO'' \<and> r_Period m = ''2025'' \<and>
                 r_N (r_series m) = 2 \<and> r_Prom (r_series m) = 1 \<and> r_Det (r_series m) = 1 \<and>
                 r_NPS (r_series m) = Some 0)
     (portfolio ex_pool)"
proof -
  note th = portfolio_row_is_pooled_metric [OF ex_pool_fim [symmetric]]
  have per: "sort (remdups (map Period ex_pool)) = [''2025'']"
    by (simp add: ex_pool_def ex_row_def Period_def sublist_code)
  from th have "map r_Period (portfolio ex_pool) = sort (remdups (map Period ex_pool))"
    by (rule conjunct1 [OF conjunct2])
  then have periods: "map r_Period (portfolio ex_pool) = [''2025'']"
    by (simp only: per)
  have "set (map r_Period (portfolio ex_pool)) = {''2025''}"
    unfolding periods by simp
  then have img: "r_Period ` set (portfolio ex_pool) = {''2025''}" by simp
  have ne: "portfolio ex_pool \<noteq> []"
  proof
    assume "portfolio ex_pool = []"
    with img show False by simp
  qed
  have p25: "\<forall>m \<in> set (portfolio ex_pool). r_Period m = ''2025''"
  proof
    fix m assume "m \<in> set (portfolio ex_pool)"
    then have "r_Period m \<in> r_Period ` set (portfolio ex_pool)" by (rule imageI)
    then show "r_Period m = ''2025''" unfolding img by simp
  qed
  have pool: "spec_pool ex_pool ''2025'' = ex_pool"
    by (simp add: spec_pool_def ex_pool_def ex_row_def Period_def sublist_code)
  have met: "spec_metric ex_pool = \<lparr>r_N = 2, r_Det = 1, r_Neu = 0, r_Prom = 1, r_NPS = Some 0\<rparr>"
    by (simp add: spec_metric_def spec_normalize_def ex_pool_def ex_row_def Let_def)
  from th have "\<forall>m \<in> set (portfolio ex_pool).
        r_ShoppingCode m = ''PORTFOLIO'' \<and>
        r_series m = spec_metric (spec_pool ex_pool (r_Period m))"
    using conjunct1 [OF conjunct2 [OF conjunct2 [OF conjunct2 [OF th]]]] by simp
  with p25 have "\<forall>m \<in> set (portfolio ex_pool).
        r_ShoppingCode m = ''PORTFOLIO'' \<and> r_Period m = ''2025'' \<and>
        r_series m = \<lparr>r_N = 2, r_Det = 1, r_Neu = 0, r_Prom = 1, r_NPS = Some 0\<rparr>"
    by (simp add: pool met)
  then have "list_all (\<lambda>m. r_ShoppingCode m = ''PORTFOLIO'' \<and> r_Period m = ''2025'' \<and>
                 r_N (r_series m) = 2 \<and> r_Prom (r_series m) = 1 \<and> r_Det (r_series m) = 1 \<and>
                 r_NPS (r_series m) = Some 0) (portfolio ex_pool)"
    by (simp add: list_all_iff)
  with ne show ?thesis by simp
qed

end
